theory Spec2Isabelle
  imports Main "HOL-Library.Multiset"
begin

section \<open>Data model\<close>

text \<open>
  The two tables of \<^verbatim>\<open>src/app.js\<close>. \<^verbatim>\<open>sequelize.define\<close> adds the surrogate key
  \<^verbatim>\<open>id\<close> and the timestamps to every model, and \<^verbatim>\<open>Quote.belongsTo(User)\<close> adds the
  nullable foreign key \<^verbatim>\<open>UserId\<close> to the quotes. The timestamps of a user are read by
  no route and are left out. Times are milliseconds on the server clock.
\<close>

record user =
  user_id :: nat
  username :: string

record quote =
  quote_id :: nat
  quoteText :: string
  personName :: string
  location :: "string option"
  date :: "string option"
  UserId :: "nat option"
  createdAt :: nat
  updatedAt :: nat

text \<open>
  The \<^verbatim>\<open>where\<close> object of a query on the quotes: a key that the source does not write
  is \<open>None\<close> and filters nothing.
\<close>

record quote_where =
  w_id :: "nat option"
  w_UserId :: "nat option"

text \<open>
  A field of a parsed request body, as the quote routes can meet it: \<^verbatim>\<open>undefined\<close> (the
  field is not in the body), \<^verbatim>\<open>null\<close>, a string, or an array or an object; both
  \<^verbatim>\<open>express.urlencoded({ extended: true })\<close> and \<^verbatim>\<open>express.json()\<close> are installed, and the
  routes read \<^verbatim>\<open>req.body\<close> without a check. Numbers and booleans, which only a JSON body
  can carry, are not modelled.
\<close>

datatype js_value = Undefined | Null | Str string | ArrayOrObject

text \<open>The values handed to \<^verbatim>\<open>Quote.create\<close> and \<^verbatim>\<open>Quote.update\<close>.\<close>

record quote_values =
  v_quoteText :: js_value
  v_personName :: js_value
  v_location :: js_value
  v_date :: js_value
  v_UserId :: "nat option"

text \<open>Every call of the object-relational mapper that reaches the store is logged.\<close>

datatype db_op =
    OpUserFindOne string
  | OpUserInsert string
  | OpQuoteFindAll quote_where
  | OpQuoteFindOne quote_where
  | OpQuoteInsert
  | OpQuoteUpdate quote_where
  | OpQuoteDestroy quote_where

record db =
  users :: "user list"
  quotes :: "quote list"
  next_user_id :: nat
  next_quote_id :: nat
  oplog :: "db_op list"

datatype orm_error =
    ValidationError
  | UniqueConstraintError
  | ForeignKeyConstraintError
  | QueryError

section \<open>The mapper's operations, as the routes call them\<close>

definition log_op :: "db_op \<Rightarrow> db \<Rightarrow> db" where
  "log_op q d = d\<lparr>oplog := oplog d @ [q]\<rparr>"

definition matches :: "quote_where \<Rightarrow> quote \<Rightarrow> bool" where
  "matches w q =
     ((case w_id w of None \<Rightarrow> True | Some i \<Rightarrow> quote_id q = i) \<and>
      (case w_UserId w of None \<Rightarrow> True | Some u \<Rightarrow> UserId q = Some u))"

text \<open>
  \<^verbatim>\<open>User.findOne({ where: { username } })\<close>: the mapper refuses an \<^verbatim>\<open>undefined\<close> value
  in a \<^verbatim>\<open>where\<close> before it sends anything.
\<close>

definition User_findOne :: "string option \<Rightarrow> db \<Rightarrow> (orm_error + user option) \<times> db" where
  "User_findOne uname d =
     (case uname of
        None \<Rightarrow> (Inl QueryError, d)
      | Some n \<Rightarrow> (Inr (find (\<lambda>u. username u = n) (users d)), log_op (OpUserFindOne n) d))"

text \<open>
  \<^verbatim>\<open>User.create({ username })\<close> with \<^verbatim>\<open>allowNull: false, unique: true\<close>: a missing name
  fails validation, a name already stored violates the unique index, and otherwise the
  row gets the next value of the auto-increment key.
\<close>

definition User_create :: "string option \<Rightarrow> db \<Rightarrow> (orm_error + user) \<times> db" where
  "User_create uname d =
     (case uname of
        None \<Rightarrow> (Inl ValidationError, d)
      | Some n \<Rightarrow>
          (if n \<in> set (map username (users d))
           then (Inl UniqueConstraintError, log_op (OpUserInsert n) d)
           else (Inr \<lparr>user_id = next_user_id d, username = n\<rparr>,
                 (log_op (OpUserInsert n) d)
                   \<lparr>users := users d @ [\<lparr>user_id = next_user_id d, username = n\<rparr>],
                    next_user_id := Suc (next_user_id d)\<rparr>)))"

text \<open>
  \<^verbatim>\<open>order: [['createdAt', 'DESC']]\<close>: later creation times first, and rows with equal
  times in the order of the table, which is how the file-based store returns them. No
  theorem below depends on the order of rows with equal times.
\<close>

definition order_createdAt_DESC :: "quote list \<Rightarrow> quote list" where
  "order_createdAt_DESC qs = sort_key (\<lambda>q. - int (createdAt q)) qs"

definition Quote_findAll :: "quote_where \<Rightarrow> bool \<Rightarrow> db \<Rightarrow> (orm_error + quote list) \<times> db" where
  "Quote_findAll w ordered d =
     (Inr (if ordered then order_createdAt_DESC (filter (matches w) (quotes d))
           else filter (matches w) (quotes d)),
      log_op (OpQuoteFindAll w) d)"

definition Quote_findOne :: "quote_where \<Rightarrow> db \<Rightarrow> (orm_error + quote option) \<times> db" where
  "Quote_findOne w d = (Inr (find (matches w) (quotes d)), log_op (OpQuoteFindOne w) d)"

text \<open>
  The mapper validates a value for a string attribute before it sends anything:
  \<^verbatim>\<open>allowNull: false\<close> refuses \<^verbatim>\<open>null\<close> and \<^verbatim>\<open>undefined\<close>, and every string attribute
  refuses an array or an object. No \<^verbatim>\<open>notEmpty\<close> validator is declared, so a string of
  length zero is a value like any other.
\<close>

definition violates :: "bool \<Rightarrow> js_value \<Rightarrow> bool" where
  "violates allowNull v =
     (case v of
        Undefined \<Rightarrow> \<not> allowNull
      | Null \<Rightarrow> \<not> allowNull
      | Str s \<Rightarrow> False
      | ArrayOrObject \<Rightarrow> True)"

text \<open>What the store keeps in a nullable text column for a value that passed.\<close>

definition column_of :: "js_value \<Rightarrow> string option" where
  "column_of v = (case v of Str s \<Rightarrow> Some s | _ \<Rightarrow> None)"

text \<open>
  \<^verbatim>\<open>Quote.create\<close>: \<^verbatim>\<open>quoteText\<close> and \<^verbatim>\<open>personName\<close> are declared \<^verbatim>\<open>allowNull: false\<close>,
  so only a string passes for them; \<^verbatim>\<open>location\<close> and \<^verbatim>\<open>date\<close> are nullable. The store
  then checks that \<^verbatim>\<open>UserId\<close>, when it is not null, is the key of a user.
\<close>

definition Quote_create :: "quote_values \<Rightarrow> nat \<Rightarrow> db \<Rightarrow> (orm_error + quote) \<times> db" where
  "Quote_create v now d =
     (case (v_quoteText v, v_personName v) of
        (Str t, Str p) \<Rightarrow>
          (if violates True (v_location v) \<or> violates True (v_date v)
           then (Inl ValidationError, d)
           else if (case v_UserId v of
                      None \<Rightarrow> False
                    | Some u \<Rightarrow> u \<notin> set (map user_id (users d)))
           then (Inl ForeignKeyConstraintError, log_op OpQuoteInsert d)
           else (Inr \<lparr>quote_id = next_quote_id d, quoteText = t, personName = p,
                      location = column_of (v_location v), date = column_of (v_date v),
                      UserId = v_UserId v, createdAt = now, updatedAt = now\<rparr>,
                 (log_op OpQuoteInsert d)
                   \<lparr>quotes := quotes d @
                      [\<lparr>quote_id = next_quote_id d, quoteText = t, personName = p,
                        location = column_of (v_location v), date = column_of (v_date v),
                        UserId = v_UserId v, createdAt = now, updatedAt = now\<rparr>],
                    next_quote_id := Suc (next_quote_id d)\<rparr>))
      | _ \<Rightarrow> (Inl ValidationError, d))"

text \<open>
  \<^verbatim>\<open>Quote.update(values, { where })\<close>: the bulk update drops the keys whose value is
  \<^verbatim>\<open>undefined\<close>, validates the others and, when one of them fails, throws before it
  sends anything. Otherwise it writes them, \<^verbatim>\<open>null\<close> included, to every matching row,
  with a new \<^verbatim>\<open>updatedAt\<close>, and returns the number of rows it matched. \<^verbatim>\<open>UserId\<close> is not
  among the keys the routes pass.
\<close>

definition update_rejects :: "quote_values \<Rightarrow> bool" where
  "update_rejects v =
     ((v_quoteText v \<noteq> Undefined \<and> violates False (v_quoteText v)) \<or>
      (v_personName v \<noteq> Undefined \<and> violates False (v_personName v)) \<or>
      (v_location v \<noteq> Undefined \<and> violates True (v_location v)) \<or>
      (v_date v \<noteq> Undefined \<and> violates True (v_date v)))"

definition apply_values :: "quote_values \<Rightarrow> nat \<Rightarrow> quote \<Rightarrow> quote" where
  "apply_values v now q =
     q\<lparr>quoteText := (case v_quoteText v of Str t \<Rightarrow> t | _ \<Rightarrow> quoteText q),
       personName := (case v_personName v of Str p \<Rightarrow> p | _ \<Rightarrow> personName q),
       location := (if v_location v = Undefined then location q
                    else column_of (v_location v)),
       date := (if v_date v = Undefined then date q else column_of (v_date v)),
       updatedAt := now\<rparr>"

definition Quote_update :: "quote_values \<Rightarrow> quote_where \<Rightarrow> nat \<Rightarrow> db \<Rightarrow> (orm_error + nat) \<times> db" where
  "Quote_update v w now d =
     (if update_rejects v then (Inl ValidationError, d)
      else (Inr (length (filter (matches w) (quotes d))),
            (log_op (OpQuoteUpdate w) d)
              \<lparr>quotes := map (\<lambda>q. if matches w q then apply_values v now q else q)
                           (quotes d)\<rparr>))"

definition Quote_destroy :: "quote_where \<Rightarrow> db \<Rightarrow> (orm_error + nat) \<times> db" where
  "Quote_destroy w d =
     (Inr (length (filter (matches w) (quotes d))),
      (log_op (OpQuoteDestroy w) d)\<lparr>quotes := filter (\<lambda>q. \<not> matches w q) (quotes d)\<rparr>)"

section \<open>Sessions, requests and responses\<close>

text \<open>
  \<^verbatim>\<open>req.session\<close>: both fields are \<^verbatim>\<open>undefined\<close> until a login sets them. The store of
  the session middleware maps the identifier carried by the cookie to the session, and
  keeps for each session the time at which it expires: \<^verbatim>\<open>maxAge\<close> after the end of the
  last request that had it.
\<close>

record session =
  s_userId :: "nat option"
  s_username :: "string option"

definition empty_session :: session where
  "empty_session = \<lparr>s_userId = None, s_username = None\<rparr>"

definition maxAge :: nat where
  "maxAge = 24 * 60 * 60 * 1000"

record app_state =
  database :: db
  sessions :: "nat \<rightharpoonup> session"
  expires :: "nat \<rightharpoonup> nat"

text \<open>The fields of \<^verbatim>\<open>req.body\<close> that the quote forms read.\<close>

record quote_form =
  f_quoteText :: js_value
  f_personName :: js_value
  f_location :: js_value
  f_date :: js_value

text \<open>
  The routes of \<^verbatim>\<open>src/app.js\<close>. The \<^verbatim>\<open>:id\<close> of a path is taken as the number it
  denotes, and the \<^verbatim>\<open>username\<close> of a login as a string or an absent field.
\<close>

datatype endpoint =
    GetLanding
  | PostLogin "string option"
  | GetLogout
  | GetHome
  | GetAddQuote
  | PostAddQuote quote_form
  | PostDelete nat
  | GetEdit nat
  | PostEdit nat quote_form
  | GetStats
  | GetGame

text \<open>
  A request carries its cookie, if any, the identifier the middleware would draw for a
  new session, the reading of the server clock, and the route with its parameters.
\<close>

record request =
  cookie :: "nat option"
  fresh_sid :: nat
  clock :: nat
  route :: endpoint

text \<open>
  What a template is given. \<^verbatim>\<open>JSON.stringify(quotes)\<close> is kept as the list of rows it
  serialises. The fields of the game view are \<^verbatim>\<open>error\<close>, \<^verbatim>\<open>quotes\<close>, \<^verbatim>\<open>quotesJSON\<close> and
  \<^verbatim>\<open>username\<close>, each \<open>None\<close> when the route does not pass it or passes \<^verbatim>\<open>null\<close>.
\<close>

datatype view =
    LandingView
  | HomeView "quote list" "string option"
  | AddQuoteView "string option"
  | EditQuoteView quote "string option"
  | StatsView "quote list" "string option"
  | GameView "string option" "quote list option" "quote list option" "string option"

datatype response =
    Redirect string
  | Render string view
  | Status nat string

text \<open>
  \<^verbatim>\<open>x || null\<close> on a form field: \<^verbatim>\<open>undefined\<close>, \<^verbatim>\<open>null\<close> and the empty string are falsy;
  any other string, and every array and object, is truthy and is passed on.
\<close>

definition or_null :: "js_value \<Rightarrow> js_value" where
  "or_null x =
     (case x of
        Undefined \<Rightarrow> Null
      | Null \<Rightarrow> Null
      | Str s \<Rightarrow> if s = [] then Null else Str s
      | ArrayOrObject \<Rightarrow> ArrayOrObject)"

text \<open>The truth value of \<^verbatim>\<open>req.session.userId\<close>: \<^verbatim>\<open>undefined\<close> and \<^verbatim>\<open>0\<close> are falsy.\<close>

definition truthy :: "nat option \<Rightarrow> bool" where
  "truthy x = (case x of None \<Rightarrow> False | Some n \<Rightarrow> n \<noteq> 0)"

section \<open>The routes of src/app.js\<close>

text \<open>
  A handler takes the session and the database and returns the response, the session
  as it leaves it (\<open>None\<close> once destroyed) and the database.
\<close>

type_synonym outcome = "response \<times> session option \<times> db"

definition requireLogin :: "session \<Rightarrow> db \<Rightarrow> outcome \<Rightarrow> outcome" where
  "requireLogin s d next_handler =
     (if \<not> truthy (s_userId s) then (Redirect ''/'', Some s, d) else next_handler)"

definition get_landing :: "session \<Rightarrow> db \<Rightarrow> outcome" where
  "get_landing s d =
     (if truthy (s_userId s) then (Redirect ''/home'', Some s, d)
      else (Render ''landing'' LandingView, Some s, d))"

definition bind_session :: "user \<Rightarrow> session" where
  "bind_session u = \<lparr>s_userId = Some (user_id u), s_username = Some (username u)\<rparr>"

text \<open>
  \<^verbatim>\<open>POST /login\<close>. Any error of the mapper lands in the \<^verbatim>\<open>catch\<close>. The explicit
  \<^verbatim>\<open>req.session.save\<close> writes to the in-memory store of the middleware, which does not
  fail, so its error branch is not modelled.
\<close>

definition post_login :: "string option \<Rightarrow> session \<Rightarrow> db \<Rightarrow> outcome" where
  "post_login uname s d =
     (case User_findOne uname d of
        (Inl e, d1) \<Rightarrow> (Status 500 ''Error logging in'', Some s, d1)
      | (Inr (Some u), d1) \<Rightarrow> (Redirect ''/home'', Some (bind_session u), d1)
      | (Inr None, d1) \<Rightarrow>
          (case User_create uname d1 of
             (Inl e, d2) \<Rightarrow> (Status 500 ''Error logging in'', Some s, d2)
           | (Inr u, d2) \<Rightarrow> (Redirect ''/home'', Some (bind_session u), d2)))"

definition get_logout :: "session \<Rightarrow> db \<Rightarrow> outcome" where
  "get_logout s d = (Redirect ''/'', None, d)"

definition get_home :: "session \<Rightarrow> db \<Rightarrow> outcome" where
  "get_home s d = requireLogin s d
     (case Quote_findAll \<lparr>w_id = None, w_UserId = s_userId s\<rparr> True d of
        (Inl e, d1) \<Rightarrow> (Status 500 ''Error loading quotes'', Some s, d1)
      | (Inr qs, d1) \<Rightarrow> (Render ''home'' (HomeView qs (s_username s)), Some s, d1))"

definition get_add_quote :: "session \<Rightarrow> db \<Rightarrow> outcome" where
  "get_add_quote s d = requireLogin s d
     (Render ''add-quote'' (AddQuoteView (s_username s)), Some s, d)"

definition form_values :: "quote_form \<Rightarrow> nat option \<Rightarrow> quote_values" where
  "form_values f uid =
     \<lparr>v_quoteText = f_quoteText f, v_personName = f_personName f,
      v_location = or_null (f_location f), v_date = or_null (f_date f), v_UserId = uid\<rparr>"

definition post_add_quote :: "quote_form \<Rightarrow> nat \<Rightarrow> session \<Rightarrow> db \<Rightarrow> outcome" where
  "post_add_quote f now s d = requireLogin s d
     (case Quote_create (form_values f (s_userId s)) now d of
        (Inl e, d1) \<Rightarrow> (Status 500 ''Error adding quote'', Some s, d1)
      | (Inr q, d1) \<Rightarrow> (Redirect ''/home'', Some s, d1))"

definition post_quotes_delete :: "nat \<Rightarrow> session \<Rightarrow> db \<Rightarrow> outcome" where
  "post_quotes_delete i s d = requireLogin s d
     (case Quote_destroy \<lparr>w_id = Some i, w_UserId = s_userId s\<rparr> d of
        (Inl e, d1) \<Rightarrow> (Status 500 ''Error deleting quote'', Some s, d1)
      | (Inr n, d1) \<Rightarrow> (Redirect ''/home'', Some s, d1))"

definition get_quotes_edit :: "nat \<Rightarrow> session \<Rightarrow> db \<Rightarrow> outcome" where
  "get_quotes_edit i s d = requireLogin s d
     (case Quote_findOne \<lparr>w_id = Some i, w_UserId = s_userId s\<rparr> d of
        (Inl e, d1) \<Rightarrow> (Status 500 ''Error loading quote'', Some s, d1)
      | (Inr None, d1) \<Rightarrow> (Status 404 ''Quote not found'', Some s, d1)
      | (Inr (Some q), d1) \<Rightarrow> (Render ''edit-quote'' (EditQuoteView q (s_username s)), Some s, d1))"

definition post_quotes_edit :: "nat \<Rightarrow> quote_form \<Rightarrow> nat \<Rightarrow> session \<Rightarrow> db \<Rightarrow> outcome" where
  "post_quotes_edit i f now s d = requireLogin s d
     (case Quote_update (form_values f None) \<lparr>w_id = Some i, w_UserId = s_userId s\<rparr> now d of
        (Inl e, d1) \<Rightarrow> (Status 500 ''Error updating quote'', Some s, d1)
      | (Inr n, d1) \<Rightarrow> (Redirect ''/home'', Some s, d1))"

definition get_stats :: "session \<Rightarrow> db \<Rightarrow> outcome" where
  "get_stats s d = requireLogin s d
     (case Quote_findAll \<lparr>w_id = None, w_UserId = s_userId s\<rparr> False d of
        (Inl e, d1) \<Rightarrow> (Status 500 ''Error loading stats'', Some s, d1)
      | (Inr qs, d1) \<Rightarrow> (Render ''stats'' (StatsView qs (s_username s)), Some s, d1))"

definition get_game :: "session \<Rightarrow> db \<Rightarrow> outcome" where
  "get_game s d = requireLogin s d
     (case Quote_findAll \<lparr>w_id = None, w_UserId = s_userId s\<rparr> False d of
        (Inl e, d1) \<Rightarrow> (Status 500 ''Error loading game'', Some s, d1)
      | (Inr qs, d1) \<Rightarrow>
          (if length qs < 2
           then (Render ''game''
                   (GameView (Some ''You need at least 2 quotes to play the game!'')
                      (Some []) None (s_username s)), Some s, d1)
           else (Render ''game'' (GameView None None (Some qs) (s_username s)), Some s, d1)))"

fun dispatch :: "endpoint \<Rightarrow> nat \<Rightarrow> session \<Rightarrow> db \<Rightarrow> outcome" where
  "dispatch GetLanding now s d = get_landing s d"
| "dispatch (PostLogin uname) now s d = post_login uname s d"
| "dispatch GetLogout now s d = get_logout s d"
| "dispatch GetHome now s d = get_home s d"
| "dispatch GetAddQuote now s d = get_add_quote s d"
| "dispatch (PostAddQuote f) now s d = post_add_quote f now s d"
| "dispatch (PostDelete i) now s d = post_quotes_delete i s d"
| "dispatch (GetEdit i) now s d = get_quotes_edit i s d"
| "dispatch (PostEdit i f) now s d = post_quotes_edit i f now s d"
| "dispatch GetStats now s d = get_stats s d"
| "dispatch GetGame now s d = get_game s d"

text \<open>
  The session middleware: a cookie that names a stored session which has not expired
  loads it; any other request starts an empty session under a new identifier, and the
  store forgets an expired session it was asked for. After the handler the session is
  written back with a new expiry (\<^verbatim>\<open>saveUninitialized: true\<close> stores an untouched new one
  too), unless the handler destroyed it.
\<close>

definition expired :: "request \<Rightarrow> app_state \<Rightarrow> nat \<Rightarrow> bool" where
  "expired req st c = (case expires st c of None \<Rightarrow> False | Some t \<Rightarrow> t \<le> clock req)"

definition load_session :: "request \<Rightarrow> app_state \<Rightarrow> nat \<times> session" where
  "load_session req st =
     (case cookie req of
        None \<Rightarrow> (fresh_sid req, empty_session)
      | Some c \<Rightarrow>
          (case sessions st c of
             None \<Rightarrow> (fresh_sid req, empty_session)
           | Some s \<Rightarrow>
               if expired req st c then (fresh_sid req, empty_session) else (c, s)))"

definition drop_expired :: "request \<Rightarrow> app_state \<Rightarrow> app_state" where
  "drop_expired req st =
     (case cookie req of
        None \<Rightarrow> st
      | Some c \<Rightarrow>
          if expired req st c
          then st\<lparr>sessions := (sessions st)(c := None), expires := (expires st)(c := None)\<rparr>
          else st)"

definition session_id_of :: "request \<Rightarrow> app_state \<Rightarrow> nat" where
  "session_id_of req st = fst (load_session req st)"

definition session_of :: "request \<Rightarrow> app_state \<Rightarrow> session" where
  "session_of req st = snd (load_session req st)"

definition app :: "request \<Rightarrow> app_state \<Rightarrow> response \<times> app_state" where
  "app req st =
     (case dispatch (route req) (clock req) (session_of req st) (database st) of
        (resp, None, d) \<Rightarrow>
          (resp, \<lparr>database = d,
                  sessions = (sessions (drop_expired req st))(session_id_of req st := None),
                  expires = (expires (drop_expired req st))(session_id_of req st := None)\<rparr>)
      | (resp, Some s, d) \<Rightarrow>
          (resp, \<lparr>database = d,
                  sessions = (sessions (drop_expired req st))(session_id_of req st \<mapsto> s),
                  expires = (expires (drop_expired req st))
                              (session_id_of req st \<mapsto> clock req + maxAge)\<rparr>))"

definition protected :: "endpoint \<Rightarrow> bool" where
  "protected e =
     (case e of GetLanding \<Rightarrow> False | PostLogin u \<Rightarrow> False | GetLogout \<Rightarrow> False | _ \<Rightarrow> True)"

section \<open>The delete route of the session-less variant\<close>

text \<open>
  \<^verbatim>\<open>src/unnamed/part_000\<close> is the same application without users and sessions, on the
  same storage file \<^verbatim>\<open>./quotebox.sqlite\<close>. Its delete route has no middleware in front
  and filters on the id alone.
\<close>

definition part_000_post_quotes_delete :: "nat \<Rightarrow> db \<Rightarrow> response \<times> db" where
  "part_000_post_quotes_delete i d =
     (case Quote_destroy \<lparr>w_id = Some i, w_UserId = None\<rparr> d of
        (Inl e, d1) \<Rightarrow> (Status 500 ''Error deleting quote'', d1)
      | (Inr n, d1) \<Rightarrow> (Redirect ''/'', d1))"


section \<open>What a response shows, what a query filters, and runs of requests\<close>

text \<open>The quote rows that a response hands to its template.\<close>

fun shown :: "response \<Rightarrow> quote list" where
  "shown (Render t (HomeView qs u)) = qs"
| "shown (Render t (EditQuoteView q u)) = [q]"
| "shown (Render t (StatsView qs u)) = qs"
| "shown (Render t (GameView e qs js u)) =
     (case qs of None \<Rightarrow> [] | Some a \<Rightarrow> a) @ (case js of None \<Rightarrow> [] | Some b \<Rightarrow> b)"
| "shown r = []"

text \<open>The \<^verbatim>\<open>where\<close> object of a logged query on the quotes.\<close>

fun where_of :: "db_op \<Rightarrow> quote_where option" where
  "where_of (OpQuoteFindAll w) = Some w"
| "where_of (OpQuoteFindOne w) = Some w"
| "where_of (OpQuoteUpdate w) = Some w"
| "where_of (OpQuoteDestroy w) = Some w"
| "where_of q = None"

text \<open>
  An outcome is scoped to a session when every row it shows, every row of the database
  that it changed or removed, and the filter of every query it logged, carry the
  session's user id.
\<close>

definition scoped :: "session \<Rightarrow> db \<Rightarrow> outcome \<Rightarrow> bool" where
  "scoped s d out =
     (list_all (\<lambda>q. truthy (s_userId s) \<and> UserId q = s_userId s) (shown (fst out)) \<and>
      list_all (\<lambda>q. q \<in> set (quotes (snd (snd out))) \<or>
                  (truthy (s_userId s) \<and> UserId q = s_userId s)) (quotes d) \<and>
      list_all (\<lambda>q. case where_of q of
                       None \<Rightarrow> True
                     | Some w \<Rightarrow> truthy (s_userId s) \<and> w_UserId w = s_userId s)
        (drop (length (oplog d)) (oplog (snd (snd out)))))"

text \<open>Requests served one after the other.\<close>

fun run :: "request list \<Rightarrow> app_state \<Rightarrow> app_state" where
  "run [] st = st"
| "run (r # rs) st = run rs (snd (app r st))"

text \<open>
  The tables as \<^verbatim>\<open>sequelize.sync\<close> creates them: empty, the auto-increment keys
  starting at 1.
\<close>

definition initial_db :: db where
  "initial_db = \<lparr>users = [], quotes = [], next_user_id = 1, next_quote_id = 1, oplog = []\<rparr>"

definition ids_positive :: "db \<Rightarrow> bool" where
  "ids_positive d = (0 < next_user_id d \<and> list_all (\<lambda>u. 0 < user_id u) (users d))"

section \<open>A small database to run the routes on\<close>

definition alice :: user where
  "alice = \<lparr>user_id = 1, username = ''alice''\<rparr>"

definition bob :: user where
  "bob = \<lparr>user_id = 2, username = ''bob''\<rparr>"

definition quote_hi :: quote where
  "quote_hi = \<lparr>quote_id = 1, quoteText = ''Hi'', personName = ''Bob'', location = None,
     date = None, UserId = Some 1, createdAt = 10, updatedAt = 10\<rparr>"

definition quote_yo :: quote where
  "quote_yo = \<lparr>quote_id = 2, quoteText = ''Yo'', personName = ''Eve'',
     location = Some ''Oslo'', date = None, UserId = Some 1, createdAt = 20, updatedAt = 20\<rparr>"

definition quote_no :: quote where
  "quote_no = \<lparr>quote_id = 3, quoteText = ''No'', personName = ''Al'', location = None,
     date = Some ''2024'', UserId = Some 2, createdAt = 15, updatedAt = 15\<rparr>"

definition demo_db :: db where
  "demo_db = \<lparr>users = [alice, bob], quotes = [quote_hi, quote_yo, quote_no],
     next_user_id = 3, next_quote_id = 4, oplog = []\<rparr>"

text \<open>
  Alice holds session 7 and Bob session 8, both live until time 1000; the requests below
  arrive at time 30. Session 6 is Alice's too, and expired at time 20.
\<close>

definition demo_state :: app_state where
  "demo_state = \<lparr>database = demo_db,
     sessions = [6 \<mapsto> \<lparr>s_userId = Some 1, s_username = Some ''alice''\<rparr>,
                 7 \<mapsto> \<lparr>s_userId = Some 1, s_username = Some ''alice''\<rparr>,
                 8 \<mapsto> \<lparr>s_userId = Some 2, s_username = Some ''bob''\<rparr>],
     expires = [6 \<mapsto> 20, 7 \<mapsto> 1000, 8 \<mapsto> 1000]\<rparr>"

definition demo_request :: "nat option \<Rightarrow> endpoint \<Rightarrow> request" where
  "demo_request c e = \<lparr>cookie = c, fresh_sid = 99, clock = 30, route = e\<rparr>"

definition form_new :: quote_form where
  "form_new = \<lparr>f_quoteText = Str ''New'', f_personName = Str ''Ann'',
     f_location = Str '''', f_date = Undefined\<rparr>"

definition form_empty_text :: quote_form where
  "form_empty_text = \<lparr>f_quoteText = Str '''', f_personName = Str ''Ann'',
     f_location = Undefined, f_date = Undefined\<rparr>"

definition form_no_text :: quote_form where
  "form_no_text = \<lparr>f_quoteText = Undefined, f_personName = Str ''Ann'',
     f_location = Undefined, f_date = Undefined\<rparr>"

definition form_null_text :: quote_form where
  "form_null_text = \<lparr>f_quoteText = Null, f_personName = Str ''Ann'',
     f_location = Undefined, f_date = Undefined\<rparr>"

definition form_edit :: quote_form where
  "form_edit = \<lparr>f_quoteText = Str ''Hi!'', f_personName = Str ''Bob'',
     f_location = Str '''', f_date = Str ''May''\<rparr>"

lemmas demo_defs = alice_def bob_def quote_hi_def quote_yo_def quote_no_def demo_db_def
  demo_state_def demo_request_def form_new_def form_empty_text_def form_no_text_def
  form_null_text_def form_edit_def

lemmas model_defs = app_def session_of_def session_id_of_def load_session_def expired_def
  drop_expired_def maxAge_def
  empty_session_def truthy_def requireLogin_def protected_def get_landing_def post_login_def
  get_logout_def get_home_def get_add_quote_def post_add_quote_def post_quotes_delete_def
  get_quotes_edit_def post_quotes_edit_def get_stats_def get_game_def form_values_def
  or_null_def bind_session_def User_findOne_def User_create_def Quote_findAll_def
  Quote_findOne_def Quote_create_def Quote_update_def Quote_destroy_def apply_values_def
  update_rejects_def violates_def column_of_def
  matches_def log_op_def order_createdAt_DESC_def


section \<open>Facts about the pieces\<close>

subsection \<open>Sessions and the guard\<close>

lemma truthy_Some: "truthy (Some uid) = (uid \<noteq> 0)"
  by (simp add: truthy_def)

lemma truthy_None [simp]: "\<not> truthy None"
  by (simp add: truthy_def)

lemma load_session_route [simp]: "load_session (req\<lparr>route := e\<rparr>) st = load_session req st"
  by (simp add: load_session_def expired_def split: option.splits)

lemma session_of_route [simp]: "session_of (req\<lparr>route := e\<rparr>) st = session_of req st"
  by (simp add: session_of_def)

lemma session_id_of_route [simp]:
  "session_id_of (req\<lparr>route := e\<rparr>) st = session_id_of req st"
  by (simp add: session_id_of_def)

lemma session_of_cookie:
  "cookie req = Some c \<Longrightarrow> sessions st c = Some s \<Longrightarrow> expires st c = Some t \<Longrightarrow>
   clock req < t \<Longrightarrow> session_of req st = s"
  by (simp add: session_of_def load_session_def expired_def)

lemma session_of_expired:
  "cookie req = Some c \<Longrightarrow> expires st c = Some t \<Longrightarrow> t \<le> clock req \<Longrightarrow>
   session_of req st = empty_session"
  by (simp add: session_of_def load_session_def expired_def split: option.splits)

lemma requireLogin_rejects:
  "\<not> truthy (s_userId s) \<Longrightarrow> requireLogin s d n = (Redirect ''/'', Some s, d)"
  by (simp add: requireLogin_def)

lemma dispatch_rejects:
  "protected e \<Longrightarrow> \<not> truthy (s_userId s) \<Longrightarrow>
   dispatch e now s d = (Redirect ''/'', Some s, d)"
  by (cases e)
     (simp_all add: protected_def requireLogin_rejects get_home_def get_add_quote_def
        post_add_quote_def post_quotes_delete_def get_quotes_edit_def post_quotes_edit_def
        get_stats_def get_game_def)

lemma app_response:
  "fst (app req st) = fst (dispatch (route req) (clock req) (session_of req st) (database st))"
  by (simp add: app_def split: prod.splits option.splits)

lemma app_database:
  "database (snd (app req st)) =
   snd (snd (dispatch (route req) (clock req) (session_of req st) (database st)))"
  by (simp add: app_def split: prod.splits option.splits)

lemma app_session_kept:
  "fst (snd (dispatch (route req) (clock req) (session_of req st) (database st))) = Some s \<Longrightarrow>
   sessions (snd (app req st)) (session_id_of req st) = Some s \<and>
   expires (snd (app req st)) (session_id_of req st) = Some (clock req + maxAge)"
  by (cases "dispatch (route req) (clock req) (session_of req st) (database st)")
     (simp add: app_def)

lemma app_rejects:
  "protected (route req) \<Longrightarrow> \<not> truthy (s_userId (session_of req st)) \<Longrightarrow>
   fst (app req st) = Redirect ''/'' \<and> database (snd (app req st)) = database st"
  by (simp add: app_response app_database dispatch_rejects)

lemma logout_forgets:
  "route req0 = GetLogout \<Longrightarrow> cookie req = cookie req0 \<Longrightarrow>
   session_of req (snd (app req0 st)) = empty_session \<and>
   database (snd (app req0 st)) = database st"
  by (auto simp add: app_def get_logout_def session_of_def session_id_of_def load_session_def
      drop_expired_def split: option.splits)

subsection \<open>Filters and lists\<close>

lemma matches_owner [simp]:
  "matches \<lparr>w_id = None, w_UserId = Some uid\<rparr> = (\<lambda>q. UserId q = Some uid)"
  by (rule ext) (simp add: matches_def)

lemma matches_id_owner [simp]:
  "matches \<lparr>w_id = Some i, w_UserId = Some uid\<rparr> =
   (\<lambda>q. quote_id q = i \<and> UserId q = Some uid)"
  by (rule ext) (simp add: matches_def)

lemma filter_none: "\<forall>q\<in>set qs. \<not> P q \<Longrightarrow> filter P qs = []"
  by (induction qs) auto

lemma find_none: "\<forall>q\<in>set qs. \<not> P q \<Longrightarrow> find P qs = None"
  by (induction qs) auto

lemma map_untouched: "\<forall>q\<in>set qs. \<not> P q \<Longrightarrow> map (\<lambda>q. if P q then f q else q) qs = qs"
  by (induction qs) auto

lemma filter_all: "\<forall>q\<in>set qs. \<not> P q \<Longrightarrow> filter (\<lambda>q. \<not> P q) qs = qs"
  by (induction qs) auto

lemma find_result: "find P xs = Some x \<Longrightarrow> x \<in> set xs \<and> P x"
  by (induction xs) (auto split: if_splits)

lemma find_by_filter:
  "find P xs = (case filter P xs of [] \<Rightarrow> None | x # ys \<Rightarrow> Some x)"
  by (induction xs) auto

lemma find_absent: "n \<notin> set (map username us) \<Longrightarrow> find (\<lambda>u. username u = n) us = None"
  by (induction us) auto

lemma find_present:
  "n \<in> set (map username us) \<Longrightarrow> \<exists>u. find (\<lambda>u. username u = n) us = Some u"
  by (induction us) auto

lemma filter_absent:
  "U \<notin> set (map username us) \<Longrightarrow> filter (\<lambda>x. username x = U) us = []"
  by (induction us) auto

subsection \<open>Validation of the submitted fields\<close>

lemma update_rejects_form:
  "update_rejects (form_values f uid) =
   (f_quoteText f = Null \<or> f_quoteText f = ArrayOrObject \<or>
    f_personName f = Null \<or> f_personName f = ArrayOrObject \<or>
    f_location f = ArrayOrObject \<or> f_date f = ArrayOrObject)"
  by (cases "f_quoteText f"; cases "f_personName f"; cases "f_location f"; cases "f_date f")
     (simp_all add: update_rejects_def form_values_def violates_def or_null_def)

lemma column_of_or_null:
  "x \<noteq> ArrayOrObject \<Longrightarrow>
   column_of (or_null x) = (case x of Str s \<Rightarrow> if s = [] then None else Some s | _ \<Rightarrow> None)"
  by (cases x) (simp_all add: column_of_def or_null_def)

lemma or_null_defined [simp]: "or_null x \<noteq> Undefined"
  by (cases x) (simp_all add: or_null_def)

lemma Quote_create_users [simp]:
  "users (snd (Quote_create v now d)) = users d \<and>
   next_user_id (snd (Quote_create v now d)) = next_user_id d"
  by (cases "v_quoteText v"; cases "v_personName v")
     (simp_all add: Quote_create_def log_op_def)

lemma Quote_update_users [simp]:
  "users (snd (Quote_update v w now d)) = users d \<and>
   next_user_id (snd (Quote_update v w now d)) = next_user_id d"
  by (simp add: Quote_update_def log_op_def)

lemma post_add_quote_users:
  "users (snd (snd (post_add_quote f now s d))) = users d \<and>
   next_user_id (snd (snd (post_add_quote f now s d))) = next_user_id d"
proof -
  obtain r d1 where c: "Quote_create (form_values f (s_userId s)) now d = (r, d1)"
    by (cases "Quote_create (form_values f (s_userId s)) now d")
  have "users d1 = users d \<and> next_user_id d1 = next_user_id d"
    using Quote_create_users[of "form_values f (s_userId s)" now d] c by simp
  then show ?thesis
    by (cases r) (simp_all add: post_add_quote_def requireLogin_def c)
qed

lemma post_quotes_edit_users:
  "users (snd (snd (post_quotes_edit i f now s d))) = users d \<and>
   next_user_id (snd (snd (post_quotes_edit i f now s d))) = next_user_id d"
proof -
  obtain r d1 where c: "Quote_update (form_values f None)
      \<lparr>w_id = Some i, w_UserId = s_userId s\<rparr> now d = (r, d1)"
    by (cases "Quote_update (form_values f None) \<lparr>w_id = Some i, w_UserId = s_userId s\<rparr> now d")
  have "users d1 = users d \<and> next_user_id d1 = next_user_id d"
    using Quote_update_users[of "form_values f None"
        "\<lparr>w_id = Some i, w_UserId = s_userId s\<rparr>" now d] c
    by simp
  then show ?thesis
    by (cases r) (simp_all add: post_quotes_edit_def requireLogin_def c)
qed

lemma Quote_create_accepts:
  assumes "Quote_create v now d = (Inr q, d')"
  shows "quotes d' = quotes d @ [q] \<and> users d' = users d \<and> UserId q = v_UserId v \<and>
         location q = column_of (v_location v) \<and> date q = column_of (v_date v) \<and>
         \<not> violates True (v_location v) \<and> \<not> violates True (v_date v)"
  using assms
  by (cases "v_quoteText v"; cases "v_personName v")
     (auto simp add: Quote_create_def log_op_def split: if_splits)

lemma Quote_create_absent:
  "v_quoteText v = Undefined \<or> v_personName v = Undefined \<Longrightarrow>
   Quote_create v now d = (Inl ValidationError, d)"
  by (cases "v_quoteText v"; cases "v_personName v") (auto simp add: Quote_create_def)

subsection \<open>The ordering of the home listing\<close>

lemma order_createdAt_DESC_mset: "mset (order_createdAt_DESC qs) = mset qs"
  by (simp add: order_createdAt_DESC_def)

lemma order_createdAt_DESC_set [simp]: "set (order_createdAt_DESC qs) = set qs"
  by (simp add: order_createdAt_DESC_def)

lemma order_createdAt_DESC_sorted:
  "sorted_wrt (\<lambda>a b. createdAt b \<le> createdAt a) (order_createdAt_DESC qs)"
proof -
  have "sorted (map (\<lambda>q. - int (createdAt q)) (sort_key (\<lambda>q. - int (createdAt q)) qs))"
    by (rule sorted_sort_key)
  then have "sorted_wrt (\<lambda>a b. - int (createdAt a) \<le> - int (createdAt b))
      (sort_key (\<lambda>q. - int (createdAt q)) qs)"
    by (simp add: sorted_map)
  then show ?thesis
    by (simp add: order_createdAt_DESC_def)
qed

lemma order_createdAt_DESC_newest_first:
  assumes "i < length (order_createdAt_DESC qs)" and "j < length (order_createdAt_DESC qs)"
    and "createdAt (order_createdAt_DESC qs ! i) < createdAt (order_createdAt_DESC qs ! j)"
  shows "j < i"
proof (rule ccontr)
  assume "\<not> j < i"
  with assms(3) have "i < j" by (cases "i = j") auto
  with assms(2) order_createdAt_DESC_sorted[of qs]
  have "createdAt (order_createdAt_DESC qs ! j) \<le> createdAt (order_createdAt_DESC qs ! i)"
    by (simp add: sorted_wrt_iff_nth_less)
  with assms(3) show False by simp
qed

subsection \<open>The users table grows by logins only\<close>

lemma post_login_users:
  "users (snd (snd (post_login uname s d))) = users d \<or>
   (\<exists>n. uname = Some n \<and> n \<notin> set (map username (users d)) \<and>
        users (snd (snd (post_login uname s d))) =
          users d @ [\<lparr>user_id = next_user_id d, username = n\<rparr>])"
proof (cases uname)
  case None
  then show ?thesis by (simp add: post_login_def User_findOne_def)
next
  case (Some n)
  show ?thesis
  proof (cases "n \<in> set (map username (users d))")
    case True
    then obtain u where "find (\<lambda>u. username u = n) (users d) = Some u"
      using find_present by blast
    then show ?thesis using Some by (simp add: post_login_def User_findOne_def log_op_def)
  next
    case False
    then have "find (\<lambda>u. username u = n) (users d) = None" by (rule find_absent)
    then show ?thesis using Some False
      by (simp add: post_login_def User_findOne_def User_create_def log_op_def)
  qed
qed

lemma dispatch_users:
  "users (snd (snd (dispatch e now s d))) = users d \<or>
   (\<exists>n. e = PostLogin (Some n) \<and> n \<notin> set (map username (users d)) \<and>
        users (snd (snd (dispatch e now s d))) =
          users d @ [\<lparr>user_id = next_user_id d, username = n\<rparr>])"
proof (cases e)
  case (PostLogin uname)
  then show ?thesis using post_login_users[of uname s d] by auto
qed (simp_all add: get_landing_def get_logout_def get_home_def get_add_quote_def
      post_add_quote_users post_quotes_delete_def get_quotes_edit_def post_quotes_edit_users
      get_stats_def get_game_def requireLogin_def Quote_findAll_def Quote_findOne_def
      Quote_destroy_def log_op_def
      split: option.splits)

lemma app_users:
  "users (database (snd (app req st))) = users (database st) \<or>
   (\<exists>n. route req = PostLogin (Some n) \<and> n \<notin> set (map username (users (database st))) \<and>
        users (database (snd (app req st))) =
          users (database st) @ [\<lparr>user_id = next_user_id (database st), username = n\<rparr>])"
  unfolding app_database by (rule dispatch_users)

lemma named_once_app:
  assumes "filter (\<lambda>x. username x = U) (users (database st)) = [u]"
  shows "filter (\<lambda>x. username x = U) (users (database (snd (app req st)))) = [u]"
proof -
  have "u \<in> set (filter (\<lambda>x. username x = U) (users (database st)))"
    using assms by simp
  then have m: "U \<in> set (map username (users (database st)))" by auto
  from app_users[of req st] show ?thesis
  proof
    assume "users (database (snd (app req st))) = users (database st)"
    then show ?thesis using assms by simp
  next
    assume "\<exists>n. route req = PostLogin (Some n) \<and>
        n \<notin> set (map username (users (database st))) \<and>
        users (database (snd (app req st))) =
          users (database st) @ [\<lparr>user_id = next_user_id (database st), username = n\<rparr>]"
    then obtain n where n: "n \<notin> set (map username (users (database st)))"
      and a: "users (database (snd (app req st))) =
          users (database st) @ [\<lparr>user_id = next_user_id (database st), username = n\<rparr>]"
      by blast
    from n m have "n \<noteq> U" by blast
    then show ?thesis using assms a by simp
  qed
qed

lemma named_once_run:
  "filter (\<lambda>x. username x = U) (users (database st)) = [u] \<Longrightarrow>
   filter (\<lambda>x. username x = U) (users (database (run reqs st))) = [u]"
  by (induction reqs arbitrary: st) (simp_all add: named_once_app)

lemma login_known:
  assumes f: "find (\<lambda>x. username x = U) (users (database st)) = Some u"
    and r: "route req = PostLogin (Some U)"
  shows "fst (app req st) = Redirect ''/home'' \<and>
         database (snd (app req st)) = log_op (OpUserFindOne U) (database st) \<and>
         sessions (snd (app req st)) (session_id_of req st) = Some (bind_session u) \<and>
         expires (snd (app req st)) (session_id_of req st) = Some (clock req + maxAge)"
proof -
  have d: "dispatch (route req) (clock req) (session_of req st) (database st) =
      (Redirect ''/home'', Some (bind_session u), log_op (OpUserFindOne U) (database st))"
    using f r by (simp add: post_login_def User_findOne_def)
  show ?thesis
    using app_session_kept[of req st "bind_session u"]
    by (simp add: app_response app_database d)
qed

lemma login_unknown:
  assumes n: "U \<notin> set (map username (users (database st)))"
    and r: "route req = PostLogin (Some U)"
  shows "fst (app req st) = Redirect ''/home'' \<and>
         database (snd (app req st)) =
           (log_op (OpUserInsert U) (log_op (OpUserFindOne U) (database st)))
              \<lparr>users := users (database st) @
                 [\<lparr>user_id = next_user_id (database st), username = U\<rparr>],
               next_user_id := Suc (next_user_id (database st))\<rparr> \<and>
         sessions (snd (app req st)) (session_id_of req st) =
           Some (bind_session \<lparr>user_id = next_user_id (database st), username = U\<rparr>) \<and>
         expires (snd (app req st)) (session_id_of req st) = Some (clock req + maxAge)"
proof -
  have "find (\<lambda>x. username x = U) (users (database st)) = None"
    using n by (rule find_absent)
  then have d: "dispatch (route req) (clock req) (session_of req st) (database st) =
      (Redirect ''/home'',
       Some (bind_session \<lparr>user_id = next_user_id (database st), username = U\<rparr>),
       (log_op (OpUserInsert U) (log_op (OpUserFindOne U) (database st)))
          \<lparr>users := users (database st) @
             [\<lparr>user_id = next_user_id (database st), username = U\<rparr>],
           next_user_id := Suc (next_user_id (database st))\<rparr>)"
    using r n by (simp add: post_login_def User_findOne_def User_create_def log_op_def)
  show ?thesis
    using app_session_kept[of req st
        "bind_session \<lparr>user_id = next_user_id (database st), username = U\<rparr>"]
    by (simp add: app_response app_database d)
qed

subsection \<open>Keys start at 1 and stay positive\<close>

lemma ids_positive_initial: "ids_positive initial_db"
  by (simp add: ids_positive_def initial_db_def)

lemma post_login_next_user_id:
  "next_user_id d \<le> next_user_id (snd (snd (post_login uname s d)))"
  by (simp add: post_login_def User_findOne_def User_create_def log_op_def
      split: option.splits)

lemma dispatch_next_user_id:
  "next_user_id d \<le> next_user_id (snd (snd (dispatch e now s d)))"
proof (cases e)
  case (PostLogin uname)
  then show ?thesis using post_login_next_user_id[of d uname s] by simp
qed (simp_all add: get_landing_def get_logout_def get_home_def get_add_quote_def
      post_add_quote_users post_quotes_delete_def get_quotes_edit_def post_quotes_edit_users
      get_stats_def get_game_def requireLogin_def Quote_findAll_def Quote_findOne_def
      Quote_destroy_def log_op_def
      split: option.splits)

lemma ids_positive_app:
  assumes "ids_positive (database st)"
  shows "ids_positive (database (snd (app req st)))"
proof -
  have n: "0 < next_user_id (database (snd (app req st)))"
    using assms
      dispatch_next_user_id[of "database st" "route req" "clock req" "session_of req st"]
    by (simp add: app_database ids_positive_def)
  from app_users[of req st]
  have "list_all (\<lambda>u. 0 < user_id u) (users (database (snd (app req st))))"
    using assms by (auto simp add: ids_positive_def)
  with n show ?thesis by (simp add: ids_positive_def)
qed

lemma ids_positive_run:
  "ids_positive (database st) \<Longrightarrow> ids_positive (database (run reqs st))"
  by (induction reqs arbitrary: st) (simp_all add: ids_positive_app)

lemma ids_positive_reachable:
  "ids_positive (database (run reqs
     \<lparr>database = initial_db, sessions = Map.empty, expires = Map.empty\<rparr>))"
  by (rule ids_positive_run) (simp add: ids_positive_initial)

subsection \<open>Every route of src/app.js is scoped to the session\<close>

lemma scoped_requireLogin:
  "(truthy (s_userId s) \<Longrightarrow> scoped s d n) \<Longrightarrow> scoped s d (requireLogin s d n)"
  by (simp add: requireLogin_def scoped_def list_all_iff)

lemma scoped_home: "scoped s d (get_home s d)"
  unfolding get_home_def
  by (rule scoped_requireLogin)
     (auto simp add: scoped_def list_all_iff Quote_findAll_def log_op_def matches_def
        split: option.splits)

lemma scoped_stats: "scoped s d (get_stats s d)"
  unfolding get_stats_def
  by (rule scoped_requireLogin)
     (auto simp add: scoped_def list_all_iff Quote_findAll_def log_op_def matches_def
        split: option.splits)

lemma scoped_game: "scoped s d (get_game s d)"
  unfolding get_game_def
  by (rule scoped_requireLogin)
     (auto simp add: scoped_def list_all_iff Quote_findAll_def log_op_def matches_def
        split: option.splits)

lemma scoped_edit_form: "scoped s d (get_quotes_edit i s d)"
  unfolding get_quotes_edit_def
  by (rule scoped_requireLogin)
     (auto simp add: scoped_def list_all_iff Quote_findOne_def log_op_def matches_def
        split: option.splits dest!: find_result)

lemma scoped_edit: "scoped s d (post_quotes_edit i f now s d)"
  unfolding post_quotes_edit_def
  by (rule scoped_requireLogin)
     (auto simp add: scoped_def list_all_iff Quote_update_def log_op_def matches_def image_iff
        split: option.splits if_splits)

lemma scoped_delete: "scoped s d (post_quotes_delete i s d)"
  unfolding post_quotes_delete_def
  by (rule scoped_requireLogin)
     (auto simp add: scoped_def list_all_iff Quote_destroy_def log_op_def matches_def
        split: option.splits)

lemma scoped_add: "scoped s d (post_add_quote f now s d)"
  unfolding post_add_quote_def
  by (rule scoped_requireLogin)
     (cases "f_quoteText f"; cases "f_personName f";
      auto simp add: scoped_def list_all_iff Quote_create_def form_values_def log_op_def
        split: option.splits if_splits)

lemma scoped_add_form: "scoped s d (get_add_quote s d)"
  unfolding get_add_quote_def
  by (rule scoped_requireLogin) (simp add: scoped_def list_all_iff)

lemma scoped_login: "scoped s d (post_login uname s d)"
  by (auto simp add: scoped_def list_all_iff post_login_def User_findOne_def User_create_def
      log_op_def split: option.splits)

lemma scoped_dispatch: "scoped s d (dispatch e now s d)"
  by (cases e)
     (simp_all add: scoped_home scoped_stats scoped_game scoped_edit_form scoped_edit
        scoped_delete scoped_add scoped_add_form scoped_login,
      simp_all add: scoped_def list_all_iff get_landing_def get_logout_def)

section \<open>Ownership\<close>

text \<open>
  Claim C1, as amended to the routes of \<^verbatim>\<open>src/app.js\<close>. For every request and the session
  it loads: every quote the response shows (home listing, edit form, stats data, quiz
  data), every stored quote that the request changed or removed, and the \<^verbatim>\<open>where\<close> of
  every query on the quotes that the request sent, carry the user id of that session,
  which is then a truthy one.
\<close>

theorem session_reaches_own_quotes_only:
  "(\<forall>q\<in>set (shown (fst (app req st))).
      truthy (s_userId (session_of req st)) \<and> UserId q = s_userId (session_of req st)) \<and>
   (\<forall>q\<in>set (quotes (database st)). q \<notin> set (quotes (database (snd (app req st)))) \<longrightarrow>
      truthy (s_userId (session_of req st)) \<and> UserId q = s_userId (session_of req st)) \<and>
   (\<forall>q\<in>set (drop (length (oplog (database st))) (oplog (database (snd (app req st))))).
      \<forall>w. where_of q = Some w \<longrightarrow>
        truthy (s_userId (session_of req st)) \<and> w_UserId w = s_userId (session_of req st))"
  using scoped_dispatch[of "session_of req st" "database st" "route req" "clock req"]
  by (auto simp add: scoped_def list_all_iff app_response app_database)

theorem session_reaches_own_quotes_only_witness:
  "quote_hi \<in> set (shown (fst (app (demo_request (Some 7) GetHome) demo_state))) \<and>
   UserId quote_hi = s_userId (session_of (demo_request (Some 7) GetHome) demo_state) \<and>
   quote_hi \<in> set (quotes (database demo_state)) \<and>
   quote_hi \<notin> set (quotes (database (snd (app (demo_request (Some 7) (PostDelete 1)) demo_state)))) \<and>
   UserId quote_hi = s_userId (session_of (demo_request (Some 7) (PostDelete 1)) demo_state) \<and>
   OpQuoteDestroy \<lparr>w_id = Some 1, w_UserId = Some 1\<rparr>
     \<in> set (drop (length (oplog (database demo_state)))
          (oplog (database (snd (app (demo_request (Some 7) (PostDelete 1)) demo_state))))) \<and>
   w_UserId \<lparr>w_id = Some 1, w_UserId = Some 1\<rparr> =
     s_userId (session_of (demo_request (Some 7) (PostDelete 1)) demo_state)"
proof -
  have a: "quote_hi \<in> set (shown (fst (app (demo_request (Some 7) GetHome) demo_state)))"
    by (simp add: demo_defs model_defs)
  have b: "quote_hi \<in> set (quotes (database demo_state))"
    by (simp add: demo_defs)
  have c: "quote_hi \<notin>
      set (quotes (database (snd (app (demo_request (Some 7) (PostDelete 1)) demo_state))))"
    by (simp add: demo_defs model_defs)
  have d: "OpQuoteDestroy \<lparr>w_id = Some 1, w_UserId = Some 1\<rparr>
     \<in> set (drop (length (oplog (database demo_state)))
          (oplog (database (snd (app (demo_request (Some 7) (PostDelete 1)) demo_state)))))"
    by (simp add: demo_defs model_defs)
  have e: "where_of (OpQuoteDestroy \<lparr>w_id = Some 1, w_UserId = Some 1\<rparr>) =
      Some \<lparr>w_id = Some 1, w_UserId = Some 1\<rparr>"
    by simp
  note h = session_reaches_own_quotes_only [of "demo_request (Some 7) GetHome" demo_state]
  note k = session_reaches_own_quotes_only [of "demo_request (Some 7) (PostDelete 1)" demo_state]
  from h a
  have 1: "UserId quote_hi = s_userId (session_of (demo_request (Some 7) GetHome) demo_state)"
    by blast
  from k b c
  have 2: "UserId quote_hi =
      s_userId (session_of (demo_request (Some 7) (PostDelete 1)) demo_state)"
    by blast
  from k d e
  have 3: "w_UserId \<lparr>w_id = Some 1, w_UserId = Some 1\<rparr> =
     s_userId (session_of (demo_request (Some 7) (PostDelete 1)) demo_state)"
    by blast
  from a 1 b c 2 d 3 show ?thesis by - (intro conjI; assumption)
qed

text \<open>
  Claim C1 as stated also covers the delete route of \<^verbatim>\<open>src/unnamed/part_000\<close>, which it
  cites. That route takes no session: any request removes the quote with the id it
  names, here the quote of user 2, and the \<^verbatim>\<open>where\<close> of the query it sends has no owner.
\<close>

theorem part_000_delete_ignores_owner:
  "quote_no \<in> set (quotes demo_db) \<and> UserId quote_no = Some 2 \<and>
   fst (part_000_post_quotes_delete 3 demo_db) = Redirect ''/'' \<and>
   quotes (snd (part_000_post_quotes_delete 3 demo_db)) = [quote_hi, quote_yo] \<and>
   oplog (snd (part_000_post_quotes_delete 3 demo_db)) =
     [OpQuoteDestroy \<lparr>w_id = Some 3, w_UserId = None\<rparr>]"
  by (simp add: part_000_post_quotes_delete_def Quote_destroy_def matches_def log_op_def
      demo_defs)

section \<open>Creating a quote\<close>

text \<open>
  Claim C2, as amended. A create-quote request under a valid session in which
  \<^verbatim>\<open>quoteText\<close> or \<^verbatim>\<open>personName\<close> is absent is answered by status 500 with the fixed
  text \<^verbatim>\<open>Error adding quote\<close>, and the database is unchanged: no row is stored and no
  statement is sent.
\<close>

theorem create_rejects_absent_text:
  assumes "route req = PostAddQuote f" and "truthy (s_userId (session_of req st))"
    and "f_quoteText f = Undefined \<or> f_personName f = Undefined"
  shows "fst (app req st) = Status 500 ''Error adding quote'' \<and>
         database (snd (app req st)) = database st"
proof -
  have "Quote_create (form_values f (s_userId (session_of req st))) (clock req) (database st) =
      (Inl ValidationError, database st)"
    using assms(3) by (intro Quote_create_absent) (simp add: form_values_def)
  then show ?thesis
    using assms(1,2)
    by (simp add: app_response app_database post_add_quote_def requireLogin_def)
qed

theorem create_rejects_absent_text_witness:
  "route (demo_request (Some 7) (PostAddQuote form_no_text)) = PostAddQuote form_no_text \<and>
   truthy (s_userId (session_of (demo_request (Some 7) (PostAddQuote form_no_text)) demo_state)) \<and>
   (f_quoteText form_no_text = Undefined \<or> f_personName form_no_text = Undefined) \<and>
   fst (app (demo_request (Some 7) (PostAddQuote form_no_text)) demo_state) =
     Status 500 ''Error adding quote'' \<and>
   database (snd (app (demo_request (Some 7) (PostAddQuote form_no_text)) demo_state)) =
     database demo_state"
proof -
  have h1: "route (demo_request (Some 7) (PostAddQuote form_no_text)) =
      PostAddQuote form_no_text"
    by (simp add: demo_request_def)
  have h2: "truthy (s_userId (session_of (demo_request (Some 7) (PostAddQuote form_no_text))
      demo_state))"
    by (simp add: demo_defs session_of_def load_session_def expired_def truthy_def)
  have h3: "f_quoteText form_no_text = Undefined \<or> f_personName form_no_text = Undefined"
    by (simp add: form_no_text_def)
  from h1 h2 h3 create_rejects_absent_text [OF h1 h2 h3] show ?thesis
    by - (intro conjI; (elim conjE)?; assumption)
qed

text \<open>
  Claim C2 as stated fails for the empty string: \<^verbatim>\<open>allowNull: false\<close> lets it pass, the
  route answers with the redirect to the listing, and the row is stored with the empty
  text.
\<close>

theorem create_accepts_empty_text:
  "f_quoteText form_empty_text = Str '''' \<and>
   fst (app (demo_request (Some 7) (PostAddQuote form_empty_text)) demo_state) =
     Redirect ''/home'' \<and>
   quotes (database (snd (app (demo_request (Some 7) (PostAddQuote form_empty_text))
       demo_state))) =
     [quote_hi, quote_yo, quote_no,
      \<lparr>quote_id = 4, quoteText = '''', personName = ''Ann'', location = None, date = None,
       UserId = Some 1, createdAt = 30, updatedAt = 30\<rparr>]"
  by (simp add: demo_defs model_defs)

text \<open>
  Claim C10. A create-quote request that succeeds (it is answered by the redirect to
  \<^verbatim>\<open>/home\<close>) appends exactly one row to the quotes and changes no other; the row's
  \<^verbatim>\<open>UserId\<close> is the user id of the session, its \<^verbatim>\<open>location\<close> is null when the submitted
  location is empty or absent, and likewise its \<^verbatim>\<open>date\<close>; the users are unchanged.
\<close>

theorem create_inserts_one_owned_row:
  assumes r: "route req = PostAddQuote f" and ok: "fst (app req st) = Redirect ''/home''"
  shows "\<exists>q. quotes (database (snd (app req st))) = quotes (database st) @ [q] \<and>
           truthy (s_userId (session_of req st)) \<and>
           UserId q = s_userId (session_of req st) \<and>
           (f_location f = Undefined \<or> f_location f = Str '''' \<longrightarrow> location q = None) \<and>
           (f_date f = Undefined \<or> f_date f = Str '''' \<longrightarrow> date q = None) \<and>
           users (database (snd (app req st))) = users (database st)"
proof -
  let ?s = "session_of req st"
  let ?v = "form_values f (s_userId ?s)"
  have t: "truthy (s_userId ?s)"
  proof (rule ccontr)
    assume "\<not> truthy (s_userId ?s)"
    then have "fst (app req st) = Redirect ''/''"
      using r by (simp add: app_response post_add_quote_def requireLogin_def)
    with ok show False by simp
  qed
  obtain res d1 where c: "Quote_create ?v (clock req) (database st) = (res, d1)"
    by (cases "Quote_create ?v (clock req) (database st)")
  from r ok t c obtain q where q: "res = Inr q"
    by (cases res) (simp_all add: app_response post_add_quote_def requireLogin_def)
  note a = Quote_create_accepts[OF c[unfolded q]]
  have d: "database (snd (app req st)) = d1"
    using r t c q by (simp add: app_database post_add_quote_def requireLogin_def)
  have l: "f_location f = Undefined \<or> f_location f = Str '''' \<longrightarrow> location q = None"
    using a by (auto simp add: form_values_def or_null_def column_of_def)
  have e: "f_date f = Undefined \<or> f_date f = Str '''' \<longrightarrow> date q = None"
    using a by (auto simp add: form_values_def or_null_def column_of_def)
  have u: "UserId q = s_userId ?s"
    using a by (simp add: form_values_def)
  from a d t u l e show ?thesis by blast
qed

theorem create_inserts_one_owned_row_witness:
  "route (demo_request (Some 7) (PostAddQuote form_new)) = PostAddQuote form_new \<and>
   fst (app (demo_request (Some 7) (PostAddQuote form_new)) demo_state) = Redirect ''/home'' \<and>
   (\<exists>q. quotes (database (snd (app (demo_request (Some 7) (PostAddQuote form_new)) demo_state))) =
           quotes (database demo_state) @ [q] \<and>
        truthy (s_userId (session_of (demo_request (Some 7) (PostAddQuote form_new)) demo_state)) \<and>
        UserId q = s_userId (session_of (demo_request (Some 7) (PostAddQuote form_new)) demo_state) \<and>
        (f_location form_new = Undefined \<or> f_location form_new = Str '''' \<longrightarrow> location q = None) \<and>
        (f_date form_new = Undefined \<or> f_date form_new = Str '''' \<longrightarrow> date q = None) \<and>
        users (database (snd (app (demo_request (Some 7) (PostAddQuote form_new)) demo_state))) =
          users (database demo_state)) \<and>
   f_location form_new = Str '''' \<and> f_date form_new = Undefined \<and>
   quotes (database (snd (app (demo_request (Some 7) (PostAddQuote form_new)) demo_state))) =
     [quote_hi, quote_yo, quote_no,
      \<lparr>quote_id = 4, quoteText = ''New'', personName = ''Ann'', location = None, date = None,
       UserId = Some 1, createdAt = 30, updatedAt = 30\<rparr>]"
proof -
  have h1: "route (demo_request (Some 7) (PostAddQuote form_new)) = PostAddQuote form_new"
    by (simp add: demo_request_def)
  have h2: "fst (app (demo_request (Some 7) (PostAddQuote form_new)) demo_state) =
      Redirect ''/home''"
    by (simp add: demo_defs model_defs)
  have f: "f_location form_new = Str ''''" "f_date form_new = Undefined"
    by (simp_all add: form_new_def)
  have e: "quotes (database (snd (app (demo_request (Some 7) (PostAddQuote form_new))
        demo_state))) =
     [quote_hi, quote_yo, quote_no,
      \<lparr>quote_id = 4, quoteText = ''New'', personName = ''Ann'', location = None, date = None,
       UserId = Some 1, createdAt = 30, updatedAt = 30\<rparr>]"
    by (simp add: demo_defs model_defs)
  show ?thesis
    using h1 h2 create_inserts_one_owned_row [OF h1 h2] f e
    by - (intro conjI; assumption)
qed

section \<open>A quote id that is not the session's\<close>

text \<open>
  Claim C3, as amended. Under a valid session of user \<open>uid\<close>, for an id \<open>i\<close> that no stored
  quote of \<open>uid\<close> has (the id does not exist, or its quote belongs to someone else): the
  edit form answers 404; the delete POST matches zero rows, leaves the quotes as they are
  and answers with the redirect to \<^verbatim>\<open>/home\<close>; the edit POST leaves the quotes as they are
  too, and it matches zero rows and answers with the redirect to \<^verbatim>\<open>/home\<close> unless a
  submitted \<^verbatim>\<open>quoteText\<close> or \<^verbatim>\<open>personName\<close> is null, an array or an object, or a submitted
  \<^verbatim>\<open>location\<close> or \<^verbatim>\<open>date\<close> is an array or an object: then validation fails before any
  statement is sent, and the answer is status 500 with the fixed text
  \<^verbatim>\<open>Error updating quote\<close>.
\<close>

theorem foreign_or_missing_id:
  assumes s: "s_userId (session_of req st) = Some uid" and u: "uid \<noteq> 0"
    and n: "\<forall>q\<in>set (quotes (database st)). \<not> (quote_id q = i \<and> UserId q = Some uid)"
  shows "fst (app (req\<lparr>route := GetEdit i\<rparr>) st) = Status 404 ''Quote not found'' \<and>
         quotes (database (snd (app (req\<lparr>route := GetEdit i\<rparr>) st))) = quotes (database st) \<and>
         fst (app (req\<lparr>route := PostEdit i f\<rparr>) st) =
           (if f_quoteText f = Null \<or> f_quoteText f = ArrayOrObject \<or>
               f_personName f = Null \<or> f_personName f = ArrayOrObject \<or>
               f_location f = ArrayOrObject \<or> f_date f = ArrayOrObject
            then Status 500 ''Error updating quote'' else Redirect ''/home'') \<and>
         quotes (database (snd (app (req\<lparr>route := PostEdit i f\<rparr>) st))) =
           quotes (database st) \<and>
         fst (Quote_update (form_values f None) \<lparr>w_id = Some i, w_UserId = Some uid\<rparr>
                (clock req) (database st)) =
           (if update_rejects (form_values f None) then Inl ValidationError else Inr 0) \<and>
         (update_rejects (form_values f None) \<longrightarrow>
            database (snd (app (req\<lparr>route := PostEdit i f\<rparr>) st)) = database st) \<and>
         fst (app (req\<lparr>route := PostDelete i\<rparr>) st) = Redirect ''/home'' \<and>
         quotes (database (snd (app (req\<lparr>route := PostDelete i\<rparr>) st))) =
           quotes (database st) \<and>
         fst (Quote_destroy \<lparr>w_id = Some i, w_UserId = Some uid\<rparr> (database st)) = Inr 0"
proof (intro conjI)
  show "fst (app (req\<lparr>route := GetEdit i\<rparr>) st) = Status 404 ''Quote not found''"
    using s u find_none[OF n]
    by (simp add: app_response get_quotes_edit_def requireLogin_def truthy_Some
        Quote_findOne_def)
  show "quotes (database (snd (app (req\<lparr>route := GetEdit i\<rparr>) st))) = quotes (database st)"
    using s u find_none[OF n]
    by (simp add: app_database get_quotes_edit_def requireLogin_def truthy_Some
        Quote_findOne_def log_op_def)
  show "fst (app (req\<lparr>route := PostEdit i f\<rparr>) st) =
           (if f_quoteText f = Null \<or> f_quoteText f = ArrayOrObject \<or>
               f_personName f = Null \<or> f_personName f = ArrayOrObject \<or>
               f_location f = ArrayOrObject \<or> f_date f = ArrayOrObject
            then Status 500 ''Error updating quote'' else Redirect ''/home'')"
    using s u update_rejects_form[of f None]
    by (simp add: app_response post_quotes_edit_def requireLogin_def truthy_Some
        Quote_update_def)
  show "quotes (database (snd (app (req\<lparr>route := PostEdit i f\<rparr>) st))) =
      quotes (database st)"
    using s u map_untouched[OF n]
    by (simp add: app_database post_quotes_edit_def requireLogin_def truthy_Some
        Quote_update_def log_op_def)
  show "fst (Quote_update (form_values f None) \<lparr>w_id = Some i, w_UserId = Some uid\<rparr>
                (clock req) (database st)) =
           (if update_rejects (form_values f None) then Inl ValidationError else Inr 0)"
    using filter_none[OF n] by (simp add: Quote_update_def)
  show "update_rejects (form_values f None) \<longrightarrow>
            database (snd (app (req\<lparr>route := PostEdit i f\<rparr>) st)) = database st"
    using s u
    by (simp add: app_database post_quotes_edit_def requireLogin_def truthy_Some
        Quote_update_def)
  show "fst (app (req\<lparr>route := PostDelete i\<rparr>) st) = Redirect ''/home''"
    using s u
    by (simp add: app_response post_quotes_delete_def requireLogin_def truthy_Some
        Quote_destroy_def)
  show "quotes (database (snd (app (req\<lparr>route := PostDelete i\<rparr>) st))) =
      quotes (database st)"
    using s u filter_all[OF n]
    by (simp add: app_database post_quotes_delete_def requireLogin_def truthy_Some
        Quote_destroy_def log_op_def)
  show "fst (Quote_destroy \<lparr>w_id = Some i, w_UserId = Some uid\<rparr> (database st)) = Inr 0"
    using filter_none[OF n] by (simp add: Quote_destroy_def)
qed

theorem foreign_or_missing_id_witness:
  "s_userId (session_of (demo_request (Some 7) GetHome) demo_state) = Some 1 \<and> (1::nat) \<noteq> 0 \<and>
   list_all (\<lambda>q. \<not> (quote_id q = 3 \<and> UserId q = Some 1)) (quotes (database demo_state)) \<and>
   quote_no \<in> set (quotes (database demo_state)) \<and> quote_id quote_no = 3 \<and>
   fst (app (demo_request (Some 7) (GetEdit 3)) demo_state) = Status 404 ''Quote not found'' \<and>
   fst (app (demo_request (Some 7) (PostEdit 3 form_edit)) demo_state) = Redirect ''/home'' \<and>
   quotes (database (snd (app (demo_request (Some 7) (PostEdit 3 form_edit)) demo_state))) =
     [quote_hi, quote_yo, quote_no] \<and>
   update_rejects (form_values form_null_text None) \<and>
   database (snd (app (demo_request (Some 7) (PostEdit 3 form_null_text)) demo_state)) =
     database demo_state \<and>
   fst (app (demo_request (Some 7) (PostDelete 3)) demo_state) = Redirect ''/home'' \<and>
   quotes (database (snd (app (demo_request (Some 7) (PostDelete 3)) demo_state))) =
     [quote_hi, quote_yo, quote_no]"
  using foreign_or_missing_id [of "demo_request (Some 7) GetHome" demo_state 1 3 form_edit]
    foreign_or_missing_id [of "demo_request (Some 7) GetHome" demo_state 1 3 form_null_text]
  by (simp add: demo_defs model_defs)

text \<open>
  Claim C3 as stated fails for the edit POST: with a \<^verbatim>\<open>quoteText\<close> that is null, an edit
  of the quote of user 2 under the session of user 1 is answered by status 500, not by
  the redirect.
\<close>

theorem edit_foreign_id_null_text_is_an_error:
  "s_userId (session_of (demo_request (Some 7) (PostEdit 3 form_null_text)) demo_state) =
     Some 1 \<and>
   list_all (\<lambda>q. \<not> (quote_id q = 3 \<and> UserId q = Some 1)) (quotes (database demo_state)) \<and>
   f_quoteText form_null_text = Null \<and>
   fst (app (demo_request (Some 7) (PostEdit 3 form_null_text)) demo_state) =
     Status 500 ''Error updating quote''"
  by (simp add: demo_defs model_defs)

section \<open>Logging in\<close>

text \<open>
  Claim C4. For a username \<open>U\<close> that no stored user has, a login with \<open>U\<close> is answered by
  the redirect to \<^verbatim>\<open>/home\<close>, appends exactly one user, named \<open>U\<close>, and binds the request's
  session to that user's id and name. After any further requests, a second login with
  \<open>U\<close> adds no user: the one user named \<open>U\<close> is still the one created first, and the
  session of the second login is bound to the same id and name.
\<close>

theorem login_creates_once:
  assumes r1: "route req1 = PostLogin (Some U)" and r2: "route req2 = PostLogin (Some U)"
    and n: "U \<notin> set (map username (users (database st)))"
  shows "fst (app req1 st) = Redirect ''/home'' \<and>
         users (database (snd (app req1 st))) =
           users (database st) @ [\<lparr>user_id = next_user_id (database st), username = U\<rparr>] \<and>
         sessions (snd (app req1 st)) (session_id_of req1 st) =
           Some \<lparr>s_userId = Some (next_user_id (database st)), s_username = Some U\<rparr> \<and>
         fst (app req2 (run reqs (snd (app req1 st)))) = Redirect ''/home'' \<and>
         users (database (snd (app req2 (run reqs (snd (app req1 st)))))) =
           users (database (run reqs (snd (app req1 st)))) \<and>
         filter (\<lambda>x. username x = U) (users (database (run reqs (snd (app req1 st))))) =
           [\<lparr>user_id = next_user_id (database st), username = U\<rparr>] \<and>
         sessions (snd (app req2 (run reqs (snd (app req1 st)))))
             (session_id_of req2 (run reqs (snd (app req1 st)))) =
           Some \<lparr>s_userId = Some (next_user_id (database st)), s_username = Some U\<rparr>"
proof -
  let ?new = "\<lparr>user_id = next_user_id (database st), username = U\<rparr>"
  let ?st1 = "snd (app req1 st)"
  note a1 = login_unknown[OF n r1]
  have u1: "users (database ?st1) = users (database st) @ [?new]"
    by (simp add: a1 log_op_def)
  have f1: "filter (\<lambda>x. username x = U) (users (database ?st1)) = [?new]"
    using filter_absent[OF n] by (simp add: u1)
  have f2: "filter (\<lambda>x. username x = U) (users (database (run reqs ?st1))) = [?new]"
    using f1 by (rule named_once_run)
  have k: "find (\<lambda>x. username x = U) (users (database (run reqs ?st1))) = Some ?new"
    by (simp add: find_by_filter f2)
  note a2 = login_known[OF k r2]
  show ?thesis
  proof (intro conjI)
    show "fst (app req1 st) = Redirect ''/home''" by (simp add: a1)
    show "users (database ?st1) = users (database st) @ [?new]" by (rule u1)
    show "sessions ?st1 (session_id_of req1 st) =
        Some \<lparr>s_userId = Some (next_user_id (database st)), s_username = Some U\<rparr>"
      by (simp add: a1 bind_session_def)
    show "fst (app req2 (run reqs ?st1)) = Redirect ''/home''" by (simp add: a2)
    show "users (database (snd (app req2 (run reqs ?st1)))) = users (database (run reqs ?st1))"
      by (simp add: a2 log_op_def)
    show "filter (\<lambda>x. username x = U) (users (database (run reqs ?st1))) = [?new]"
      by (rule f2)
    show "sessions (snd (app req2 (run reqs ?st1))) (session_id_of req2 (run reqs ?st1)) =
        Some \<lparr>s_userId = Some (next_user_id (database st)), s_username = Some U\<rparr>"
      by (simp add: a2 bind_session_def)
  qed
qed

theorem login_creates_once_witness:
  "route (demo_request None (PostLogin (Some ''carol''))) = PostLogin (Some ''carol'') \<and>
   route (demo_request (Some 5) (PostLogin (Some ''carol''))) = PostLogin (Some ''carol'') \<and>
   ''carol'' \<notin> set (map username (users (database demo_state))) \<and>
   users (database (snd (app (demo_request None (PostLogin (Some ''carol''))) demo_state))) =
     [alice, bob, \<lparr>user_id = 3, username = ''carol''\<rparr>] \<and>
   users (database (snd (app (demo_request (Some 5) (PostLogin (Some ''carol'')))
      (run [demo_request (Some 99) GetHome, demo_request (Some 99) GetLogout]
         (snd (app (demo_request None (PostLogin (Some ''carol''))) demo_state)))))) =
     [alice, bob, \<lparr>user_id = 3, username = ''carol''\<rparr>]"
proof -
  have h1: "route (demo_request None (PostLogin (Some ''carol''))) = PostLogin (Some ''carol'')"
    and h2: "route (demo_request (Some 5) (PostLogin (Some ''carol''))) =
      PostLogin (Some ''carol'')"
    by (simp_all add: demo_request_def)
  have h3: "''carol'' \<notin> set (map username (users (database demo_state)))"
    by (simp add: demo_defs)
  note t = login_creates_once [OF h1 h2 h3,
        of "[demo_request (Some 99) GetHome, demo_request (Some 99) GetLogout]"]
  from t have 1: "users (database (snd (app (demo_request None (PostLogin (Some ''carol'')))
      demo_state))) = [alice, bob, \<lparr>user_id = 3, username = ''carol''\<rparr>]"
    by (simp add: demo_defs)
  have e: "users (database (run [demo_request (Some 99) GetHome, demo_request (Some 99) GetLogout]
         (snd (app (demo_request None (PostLogin (Some ''carol''))) demo_state)))) =
      [alice, bob, \<lparr>user_id = 3, username = ''carol''\<rparr>]"
    by (simp add: demo_defs model_defs)
  from t e have 2: "users (database (snd (app (demo_request (Some 5) (PostLogin (Some ''carol'')))
      (run [demo_request (Some 99) GetHome, demo_request (Some 99) GetLogout]
         (snd (app (demo_request None (PostLogin (Some ''carol''))) demo_state)))))) =
     [alice, bob, \<lparr>user_id = 3, username = ''carol''\<rparr>]"
    by simp
  from h1 h2 h3 1 2 show ?thesis by - (intro conjI; assumption)
qed

text \<open>
  Claim C9. A login whose username is the empty string succeeds: it is answered by the
  redirect to \<^verbatim>\<open>/home\<close>; afterwards a user whose name is the empty string is stored, and
  the request's session holds that user's id as \<^verbatim>\<open>userId\<close> and the empty string as
  \<^verbatim>\<open>username\<close>. Keys being positive, as they are in every database that grew from the
  empty one, that id is truthy: a later request that carries the cookie of that session
  before the session expires, 24 hours after the login, loads that very session, and the
  guard passes the request on to its handler.
\<close>

theorem empty_username_logs_in:
  assumes r: "route req = PostLogin (Some '''')" and p: "ids_positive (database st)"
  shows "fst (app req st) = Redirect ''/home'' \<and>
         (\<exists>u\<in>set (users (database (snd (app req st)))).
            username u = '''' \<and> user_id u \<noteq> 0 \<and>
            sessions (snd (app req st)) (session_id_of req st) =
              Some \<lparr>s_userId = Some (user_id u), s_username = Some ''''\<rparr> \<and>
            (\<forall>req2. cookie req2 = Some (session_id_of req st) \<and>
                    clock req2 < clock req + maxAge \<longrightarrow>
               session_of req2 (snd (app req st)) =
                 \<lparr>s_userId = Some (user_id u), s_username = Some ''''\<rparr> \<and>
               truthy (s_userId (session_of req2 (snd (app req st)))) \<and>
               (\<forall>d nxt. requireLogin (session_of req2 (snd (app req st))) d nxt = nxt)))"
proof -
  have "\<exists>u. u \<in> set (users (database (snd (app req st)))) \<and> username u = '''' \<and>
          0 < user_id u \<and> fst (app req st) = Redirect ''/home'' \<and>
          sessions (snd (app req st)) (session_id_of req st) = Some (bind_session u) \<and>
          expires (snd (app req st)) (session_id_of req st) = Some (clock req + maxAge)"
  proof (cases "'''' \<in> set (map username (users (database st)))")
    case True
    then obtain u where f: "find (\<lambda>x. username x = '''') (users (database st)) = Some u"
      using find_present by blast
    then have m: "u \<in> set (users (database st)) \<and> username u = ''''"
      by (rule find_result)
    with p have "0 < user_id u"
      by (simp add: ids_positive_def list_all_iff)
    with m login_known[OF f r] show ?thesis
      by (auto simp add: log_op_def)
  next
    case False
    note a = login_unknown[OF False r]
    have "0 < next_user_id (database st)"
      using p by (simp add: ids_positive_def)
    then show ?thesis
      by (intro exI[of _ "\<lparr>user_id = next_user_id (database st), username = ''''\<rparr>"])
         (simp add: a log_op_def)
  qed
  then obtain u where u: "u \<in> set (users (database (snd (app req st))))" "username u = ''''"
    "0 < user_id u" "fst (app req st) = Redirect ''/home''"
    "sessions (snd (app req st)) (session_id_of req st) = Some (bind_session u)"
    "expires (snd (app req st)) (session_id_of req st) = Some (clock req + maxAge)"
    by blast
  have b: "bind_session u = \<lparr>s_userId = Some (user_id u), s_username = Some ''''\<rparr>"
    using u(2) by (simp add: bind_session_def)
  have g: "\<forall>req2. cookie req2 = Some (session_id_of req st) \<and>
                    clock req2 < clock req + maxAge \<longrightarrow>
               session_of req2 (snd (app req st)) =
                 \<lparr>s_userId = Some (user_id u), s_username = Some ''''\<rparr> \<and>
               truthy (s_userId (session_of req2 (snd (app req st)))) \<and>
               (\<forall>d nxt. requireLogin (session_of req2 (snd (app req st))) d nxt = nxt)"
  proof (intro allI impI)
    fix req2 :: request
    assume c: "cookie req2 = Some (session_id_of req st) \<and> clock req2 < clock req + maxAge"
    have e: "session_of req2 (snd (app req st)) =
        \<lparr>s_userId = Some (user_id u), s_username = Some ''''\<rparr>"
      using session_of_cookie[of req2 "session_id_of req st" "snd (app req st)"
          "bind_session u" "clock req + maxAge"] c u(5) u(6) b
      by simp
    show "session_of req2 (snd (app req st)) =
                 \<lparr>s_userId = Some (user_id u), s_username = Some ''''\<rparr> \<and>
               truthy (s_userId (session_of req2 (snd (app req st)))) \<and>
               (\<forall>d nxt. requireLogin (session_of req2 (snd (app req st))) d nxt = nxt)"
      using u(3) by (simp add: e truthy_def requireLogin_def)
  qed
  from u(3) have z: "user_id u \<noteq> 0" by simp
  show ?thesis
  proof (intro conjI)
    show "fst (app req st) = Redirect ''/home''" by (rule u(4))
    show "\<exists>u\<in>set (users (database (snd (app req st)))).
            username u = '''' \<and> user_id u \<noteq> 0 \<and>
            sessions (snd (app req st)) (session_id_of req st) =
              Some \<lparr>s_userId = Some (user_id u), s_username = Some ''''\<rparr> \<and>
            (\<forall>req2. cookie req2 = Some (session_id_of req st) \<and>
                    clock req2 < clock req + maxAge \<longrightarrow>
               session_of req2 (snd (app req st)) =
                 \<lparr>s_userId = Some (user_id u), s_username = Some ''''\<rparr> \<and>
               truthy (s_userId (session_of req2 (snd (app req st)))) \<and>
               (\<forall>d nxt. requireLogin (session_of req2 (snd (app req st))) d nxt = nxt))"
    proof (rule bexI[OF _ u(1)], intro conjI)
      show "username u = ''''" by (rule u(2))
      show "user_id u \<noteq> 0" by (rule z)
      show "sessions (snd (app req st)) (session_id_of req st) =
              Some \<lparr>s_userId = Some (user_id u), s_username = Some ''''\<rparr>"
        using u(5) b by simp
      show "\<forall>req2. cookie req2 = Some (session_id_of req st) \<and>
                    clock req2 < clock req + maxAge \<longrightarrow>
               session_of req2 (snd (app req st)) =
                 \<lparr>s_userId = Some (user_id u), s_username = Some ''''\<rparr> \<and>
               truthy (s_userId (session_of req2 (snd (app req st)))) \<and>
               (\<forall>d nxt. requireLogin (session_of req2 (snd (app req st))) d nxt = nxt)"
        by (rule g)
    qed
  qed
qed

theorem empty_username_logs_in_witness:
  "route (demo_request None (PostLogin (Some ''''))) = PostLogin (Some '''') \<and>
   ids_positive (database demo_state) \<and>
   fst (app (demo_request None (PostLogin (Some ''''))) demo_state) = Redirect ''/home'' \<and>
   users (database (snd (app (demo_request None (PostLogin (Some ''''))) demo_state))) =
     [alice, bob, \<lparr>user_id = 3, username = ''''\<rparr>] \<and>
   sessions (snd (app (demo_request None (PostLogin (Some ''''))) demo_state))
       (session_id_of (demo_request None (PostLogin (Some ''''))) demo_state) =
     Some \<lparr>s_userId = Some 3, s_username = Some ''''\<rparr> \<and>
   cookie (demo_request (Some 99) GetHome) =
     Some (session_id_of (demo_request None (PostLogin (Some ''''))) demo_state) \<and>
   clock (demo_request (Some 99) GetHome) <
     clock (demo_request None (PostLogin (Some ''''))) + maxAge \<and>
   truthy (s_userId (session_of (demo_request (Some 99) GetHome)
     (snd (app (demo_request None (PostLogin (Some ''''))) demo_state)))) \<and>
   fst (app (demo_request (Some 99) GetHome)
          (snd (app (demo_request None (PostLogin (Some ''''))) demo_state))) =
     Render ''home'' (HomeView [] (Some ''''))"
proof -
  have h1: "route (demo_request None (PostLogin (Some ''''))) = PostLogin (Some '''')"
    by (simp add: demo_request_def)
  have h2: "ids_positive (database demo_state)"
    by (simp add: ids_positive_def demo_defs)
  have c: "cookie (demo_request (Some 99) GetHome) =
     Some (session_id_of (demo_request None (PostLogin (Some ''''))) demo_state)"
    "clock (demo_request (Some 99) GetHome) <
     clock (demo_request None (PostLogin (Some ''''))) + maxAge"
    by (simp_all add: demo_defs model_defs)
  have e: "fst (app (demo_request (Some 99) GetHome)
          (snd (app (demo_request None (PostLogin (Some ''''))) demo_state))) =
     Render ''home'' (HomeView [] (Some ''''))"
    "users (database (snd (app (demo_request None (PostLogin (Some ''''))) demo_state))) =
     [alice, bob, \<lparr>user_id = 3, username = ''''\<rparr>]"
    "sessions (snd (app (demo_request None (PostLogin (Some ''''))) demo_state))
       (session_id_of (demo_request None (PostLogin (Some ''''))) demo_state) =
     Some \<lparr>s_userId = Some 3, s_username = Some ''''\<rparr>"
    by (simp_all add: demo_defs model_defs)
  note t = empty_username_logs_in [OF h1 h2]
  from t have 1: "fst (app (demo_request None (PostLogin (Some ''''))) demo_state) =
      Redirect ''/home''"
    by blast
  from t c have 2: "truthy (s_userId (session_of (demo_request (Some 99) GetHome)
     (snd (app (demo_request None (PostLogin (Some ''''))) demo_state))))"
    by blast
  from h1 h2 1 e(2) e(3) c 2 e(1) show ?thesis by - (intro conjI; assumption)
qed

section \<open>The guard\<close>

text \<open>
  Claim C5. A request to a protected route (home, add-quote, edit, delete, stats, game)
  whose session has no truthy \<^verbatim>\<open>userId\<close> is answered by a redirect to \<^verbatim>\<open>/\<close>, and the
  database comes back as it was, its log of mapper calls included: no query was sent.
  That is the case in particular for a request that carries the cookie of a request that
  logged out, whatever the session held before.
\<close>

theorem guard_redirects_without_session:
  assumes "protected (route req)"
  shows "(\<not> truthy (s_userId (session_of req st)) \<longrightarrow>
            fst (app req st) = Redirect ''/'' \<and> database (snd (app req st)) = database st) \<and>
         (route req0 = GetLogout \<and> cookie req = cookie req0 \<longrightarrow>
            fst (app req (snd (app req0 st))) = Redirect ''/'' \<and>
            database (snd (app req (snd (app req0 st)))) = database st)"
proof (intro conjI impI)
  assume n: "\<not> truthy (s_userId (session_of req st))"
  show "fst (app req st) = Redirect ''/''"
    using assms n by (simp add: app_rejects)
  show "database (snd (app req st)) = database st"
    using assms n by (simp add: app_rejects)
next
  assume l: "route req0 = GetLogout \<and> cookie req = cookie req0"
  then have e: "session_of req (snd (app req0 st)) = empty_session"
    and d: "database (snd (app req0 st)) = database st"
    using logout_forgets[of req0 req st] by simp_all
  have n: "\<not> truthy (s_userId (session_of req (snd (app req0 st))))"
    by (simp add: e empty_session_def truthy_def)
  show "fst (app req (snd (app req0 st))) = Redirect ''/''"
    using assms n by (simp add: app_rejects)
  show "database (snd (app req (snd (app req0 st)))) = database st"
    using assms n d by (simp add: app_rejects)
qed

theorem guard_redirects_without_session_witness:
  "protected (route (demo_request None GetStats)) \<and>
   \<not> truthy (s_userId (session_of (demo_request None GetStats) demo_state)) \<and>
   fst (app (demo_request None GetStats) demo_state) = Redirect ''/'' \<and>
   \<not> truthy (s_userId (session_of (demo_request (Some 6) GetHome) demo_state)) \<and>
   fst (app (demo_request (Some 6) GetHome) demo_state) = Redirect ''/'' \<and>
   protected (route (demo_request (Some 7) GetHome)) \<and>
   route (demo_request (Some 7) GetLogout) = GetLogout \<and>
   truthy (s_userId (session_of (demo_request (Some 7) GetHome) demo_state)) \<and>
   fst (app (demo_request (Some 7) GetHome)
          (snd (app (demo_request (Some 7) GetLogout) demo_state))) = Redirect ''/''"
proof -
  have p: "protected (route (demo_request None GetStats))"
    "protected (route (demo_request (Some 6) GetHome))"
    "protected (route (demo_request (Some 7) GetHome))"
    by (simp_all add: demo_request_def protected_def)
  have n: "\<not> truthy (s_userId (session_of (demo_request None GetStats) demo_state))"
    "\<not> truthy (s_userId (session_of (demo_request (Some 6) GetHome) demo_state))"
    by (simp_all add: demo_defs session_of_def load_session_def expired_def empty_session_def)
  have l: "route (demo_request (Some 7) GetLogout) = GetLogout"
    "cookie (demo_request (Some 7) GetHome) = cookie (demo_request (Some 7) GetLogout)"
    by (simp_all add: demo_request_def)
  have t: "truthy (s_userId (session_of (demo_request (Some 7) GetHome) demo_state))"
    by (simp add: demo_defs session_of_def load_session_def expired_def truthy_def)
  from guard_redirects_without_session [OF p(1), of demo_state] n(1)
  have 1: "fst (app (demo_request None GetStats) demo_state) = Redirect ''/''"
    by blast
  from guard_redirects_without_session [OF p(2), of demo_state] n(2)
  have 2: "fst (app (demo_request (Some 6) GetHome) demo_state) = Redirect ''/''"
    by blast
  from guard_redirects_without_session [OF p(3), of demo_state "demo_request (Some 7) GetLogout"]
    l
  have 3: "fst (app (demo_request (Some 7) GetHome)
          (snd (app (demo_request (Some 7) GetLogout) demo_state))) = Redirect ''/''"
    by blast
  from p(1) n(1) 1 n(2) 2 p(3) l(1) t 3 show ?thesis by - (intro conjI; assumption)
qed

section \<open>Listing and quiz\<close>

text \<open>
  Claim C6. Under a valid session of user \<open>uid\<close> the home route renders the listing with
  all quotes of \<open>uid\<close>, each as often as it is stored and none left out, and in it a quote
  with a later creation time stands before one with an earlier creation time.
\<close>

theorem home_lists_all_newest_first:
  assumes "route req = GetHome" and "s_userId (session_of req st) = Some uid" and "uid \<noteq> 0"
  shows "\<exists>qs. fst (app req st) =
             Render ''home'' (HomeView qs (s_username (session_of req st))) \<and>
           mset qs = mset (filter (\<lambda>q. UserId q = Some uid) (quotes (database st))) \<and>
           (\<forall>i j. i < length qs \<and> j < length qs \<and> createdAt (qs ! i) < createdAt (qs ! j)
                   \<longrightarrow> j < i)"
proof -
  let ?qs = "order_createdAt_DESC (filter (\<lambda>q. UserId q = Some uid) (quotes (database st)))"
  have "fst (app req st) = Render ''home'' (HomeView ?qs (s_username (session_of req st)))"
    using assms
    by (simp add: app_response get_home_def requireLogin_def truthy_Some Quote_findAll_def)
  moreover have "mset ?qs = mset (filter (\<lambda>q. UserId q = Some uid) (quotes (database st)))"
    by (rule order_createdAt_DESC_mset)
  moreover have "\<forall>i j. i < length ?qs \<and> j < length ?qs \<and>
      createdAt (?qs ! i) < createdAt (?qs ! j) \<longrightarrow> j < i"
    using order_createdAt_DESC_newest_first by blast
  ultimately show ?thesis by blast
qed

theorem home_lists_all_newest_first_witness:
  "route (demo_request (Some 7) GetHome) = GetHome \<and>
   s_userId (session_of (demo_request (Some 7) GetHome) demo_state) = Some 1 \<and> (1::nat) \<noteq> 0 \<and>
   (\<exists>qs. fst (app (demo_request (Some 7) GetHome) demo_state) =
           Render ''home''
             (HomeView qs (s_username (session_of (demo_request (Some 7) GetHome) demo_state))) \<and>
        mset qs = mset (filter (\<lambda>q. UserId q = Some 1) (quotes (database demo_state))) \<and>
        (\<forall>i j. i < length qs \<and> j < length qs \<and> createdAt (qs ! i) < createdAt (qs ! j)
                   \<longrightarrow> j < i)) \<and>
   createdAt quote_hi < createdAt quote_yo \<and>
   fst (app (demo_request (Some 7) GetHome) demo_state) =
           Render ''home'' (HomeView [quote_yo, quote_hi] (Some ''alice''))"
proof -
  have h1: "route (demo_request (Some 7) GetHome) = GetHome"
    by (simp add: demo_request_def)
  have h2: "s_userId (session_of (demo_request (Some 7) GetHome) demo_state) = Some 1"
    by (simp add: demo_defs session_of_def load_session_def expired_def)
  have h3: "(1::nat) \<noteq> 0" by simp
  have c: "createdAt quote_hi < createdAt quote_yo"
    by (simp add: demo_defs)
  have e: "fst (app (demo_request (Some 7) GetHome) demo_state) =
           Render ''home'' (HomeView [quote_yo, quote_hi] (Some ''alice''))"
    by (simp add: demo_defs model_defs)
  show ?thesis
    using h1 h2 h3 home_lists_all_newest_first [OF h1 h2 h3] c e
    by - (intro conjI; assumption)
qed

text \<open>
  Claim C7. Under a valid session of user \<open>uid\<close> the game route renders the view with the
  error text and an empty quote list, and no quiz data, exactly when \<open>uid\<close> owns fewer than
  two quotes; otherwise it renders the view with all quotes of \<open>uid\<close> as quiz data and no
  error.
\<close>

theorem game_needs_two_quotes:
  assumes "route req = GetGame" and "s_userId (session_of req st) = Some uid" and "uid \<noteq> 0"
  shows "fst (app req st) =
    (if length (filter (\<lambda>q. UserId q = Some uid) (quotes (database st))) < 2
     then Render ''game'' (GameView (Some ''You need at least 2 quotes to play the game!'')
            (Some []) None (s_username (session_of req st)))
     else Render ''game'' (GameView None None
            (Some (filter (\<lambda>q. UserId q = Some uid) (quotes (database st))))
            (s_username (session_of req st))))"
  using assms
  by (simp add: app_response get_game_def requireLogin_def truthy_Some Quote_findAll_def)

theorem game_needs_two_quotes_witness:
  "route (demo_request (Some 8) GetGame) = GetGame \<and>
   s_userId (session_of (demo_request (Some 8) GetGame) demo_state) = Some 2 \<and> (2::nat) \<noteq> 0 \<and>
   fst (app (demo_request (Some 8) GetGame) demo_state) =
     Render ''game'' (GameView (Some ''You need at least 2 quotes to play the game!'')
       (Some []) None (Some ''bob'')) \<and>
   s_userId (session_of (demo_request (Some 7) GetGame) demo_state) = Some 1 \<and>
   fst (app (demo_request (Some 7) GetGame) demo_state) =
     Render ''game'' (GameView None None (Some [quote_hi, quote_yo]) (Some ''alice''))"
  using game_needs_two_quotes [of "demo_request (Some 8) GetGame" demo_state 2]
    game_needs_two_quotes [of "demo_request (Some 7) GetGame" demo_state 1]
  by (simp add: demo_defs model_defs)

section \<open>Editing a quote\<close>

lemma post_edit_answer:
  assumes r: "route req = PostEdit i f" and s: "s_userId (session_of req st) = Some uid"
    and u: "uid \<noteq> 0"
  shows "fst (app req st) =
           (if update_rejects (form_values f None) then Status 500 ''Error updating quote''
            else Redirect ''/home'') \<and>
         database (snd (app req st)) =
           (if update_rejects (form_values f None) then database st
            else (log_op (OpQuoteUpdate \<lparr>w_id = Some i, w_UserId = Some uid\<rparr>) (database st))
              \<lparr>quotes := map (\<lambda>q. if quote_id q = i \<and> UserId q = Some uid
                               then apply_values (form_values f None) (clock req) q else q)
                        (quotes (database st))\<rparr>)"
  using r s u
  by (simp add: app_response app_database post_quotes_edit_def requireLogin_def truthy_Some
      Quote_update_def)

lemma apply_accepted_values:
  assumes "\<not> update_rejects (form_values f None)"
  shows "apply_values (form_values f None) now q =
      q\<lparr>quoteText := (case f_quoteText f of Str t \<Rightarrow> t | _ \<Rightarrow> quoteText q),
        personName := (case f_personName f of Str p \<Rightarrow> p | _ \<Rightarrow> personName q),
        location := (case f_location f of
                       Str l \<Rightarrow> if l = [] then None else Some l
                     | _ \<Rightarrow> None),
        date := (case f_date f of Str d \<Rightarrow> if d = [] then None else Some d | _ \<Rightarrow> None),
        updatedAt := now\<rparr>"
proof -
  from assms have l: "f_location f \<noteq> ArrayOrObject" and d: "f_date f \<noteq> ArrayOrObject"
    by (simp_all add: update_rejects_form)
  show ?thesis
    using column_of_or_null[OF l] column_of_or_null[OF d]
    by (simp add: apply_values_def form_values_def)
qed

text \<open>
  Claim C8, as amended. After a successful edit under a valid session of user \<open>uid\<close> (the
  answer is the redirect to \<^verbatim>\<open>/home\<close>): in every quote of \<open>uid\<close> with the requested id,
  \<^verbatim>\<open>location\<close> and \<^verbatim>\<open>date\<close> are replaced by the submitted values (null when empty, null
  or absent), and \<^verbatim>\<open>quoteText\<close> and \<^verbatim>\<open>personName\<close> are replaced by the submitted values
  when the request carries them and keep their stored value when it does not. The id and
  the owner of every quote are unchanged, every other quote is unchanged, and so are the
  users.
\<close>

theorem edit_replaces_content_only:
  assumes r: "route req = PostEdit i f" and s: "s_userId (session_of req st) = Some uid"
    and u: "uid \<noteq> 0" and ok: "fst (app req st) = Redirect ''/home''"
  shows "users (database (snd (app req st))) = users (database st) \<and>
         length (quotes (database (snd (app req st)))) = length (quotes (database st)) \<and>
         (\<forall>k<length (quotes (database st)).
            quote_id (quotes (database (snd (app req st))) ! k) =
              quote_id (quotes (database st) ! k) \<and>
            UserId (quotes (database (snd (app req st))) ! k) =
              UserId (quotes (database st) ! k) \<and>
            (if quote_id (quotes (database st) ! k) = i \<and>
                UserId (quotes (database st) ! k) = Some uid
             then quotes (database (snd (app req st))) ! k =
                    (quotes (database st) ! k)
                      \<lparr>quoteText := (case f_quoteText f of
                                       Str t \<Rightarrow> t
                                     | _ \<Rightarrow> quoteText (quotes (database st) ! k)),
                       personName := (case f_personName f of
                                        Str p \<Rightarrow> p
                                      | _ \<Rightarrow> personName (quotes (database st) ! k)),
                       location := (case f_location f of
                                      Str l \<Rightarrow> if l = [] then None else Some l
                                    | _ \<Rightarrow> None),
                       date := (case f_date f of
                                  Str d \<Rightarrow> if d = [] then None else Some d
                                | _ \<Rightarrow> None),
                       updatedAt := clock req\<rparr>
             else quotes (database (snd (app req st))) ! k = quotes (database st) ! k)) \<and>
         (f_quoteText f = Undefined \<or> (\<exists>t. f_quoteText f = Str t)) \<and>
         (f_personName f = Undefined \<or> (\<exists>p. f_personName f = Str p))"
proof -
  note a = post_edit_answer[OF r s u]
  from a ok have v: "\<not> update_rejects (form_values f None)"
    by (auto split: if_splits)
  from a v have d: "database (snd (app req st)) =
      (log_op (OpQuoteUpdate \<lparr>w_id = Some i, w_UserId = Some uid\<rparr>) (database st))
         \<lparr>quotes := map (\<lambda>q. if quote_id q = i \<and> UserId q = Some uid
                               then apply_values (form_values f None) (clock req) q else q)
                        (quotes (database st))\<rparr>"
    by simp
  have t: "f_quoteText f = Undefined \<or> (\<exists>t. f_quoteText f = Str t)"
    using v by (cases "f_quoteText f") (simp_all add: update_rejects_form)
  have p: "f_personName f = Undefined \<or> (\<exists>p. f_personName f = Str p)"
    using v by (cases "f_personName f") (simp_all add: update_rejects_form)
  show ?thesis
    using t p by (simp add: d log_op_def apply_accepted_values[OF v])
qed

theorem edit_replaces_content_only_witness:
  "route (demo_request (Some 7) (PostEdit 1 form_edit)) = PostEdit 1 form_edit \<and>
   s_userId (session_of (demo_request (Some 7) (PostEdit 1 form_edit)) demo_state) = Some 1 \<and>
   (1::nat) \<noteq> 0 \<and>
   fst (app (demo_request (Some 7) (PostEdit 1 form_edit)) demo_state) = Redirect ''/home'' \<and>
   (0::nat) < length (quotes (database demo_state)) \<and>
   quote_id (quotes (database demo_state) ! 0) = 1 \<and>
   UserId (quotes (database demo_state) ! 0) = Some 1 \<and>
   users (database (snd (app (demo_request (Some 7) (PostEdit 1 form_edit)) demo_state))) =
     users (database demo_state) \<and>
   quotes (database (snd (app (demo_request (Some 7) (PostEdit 1 form_edit)) demo_state))) =
     [quote_hi\<lparr>quoteText := ''Hi!'', date := Some ''May'', updatedAt := 30\<rparr>,
      quote_yo, quote_no]"
proof -
  have h1: "route (demo_request (Some 7) (PostEdit 1 form_edit)) = PostEdit 1 form_edit"
    by (simp add: demo_request_def)
  have h2: "s_userId (session_of (demo_request (Some 7) (PostEdit 1 form_edit)) demo_state) =
      Some 1"
    by (simp add: demo_defs session_of_def load_session_def expired_def)
  have h3: "(1::nat) \<noteq> 0" by simp
  have h4: "fst (app (demo_request (Some 7) (PostEdit 1 form_edit)) demo_state) =
      Redirect ''/home''"
    by (simp add: demo_defs model_defs)
  have k: "(0::nat) < length (quotes (database demo_state))"
    "quote_id (quotes (database demo_state) ! 0) = 1"
    "UserId (quotes (database demo_state) ! 0) = Some 1"
    by (simp_all add: demo_defs)
  have e: "quotes (database (snd (app (demo_request (Some 7) (PostEdit 1 form_edit))
      demo_state))) =
     [quote_hi\<lparr>quoteText := ''Hi!'', date := Some ''May'', updatedAt := 30\<rparr>,
      quote_yo, quote_no]"
    by (simp add: demo_defs model_defs)
  note t = edit_replaces_content_only [OF h1 h2 h3 h4]
  from t have w: "users (database (snd (app (demo_request (Some 7) (PostEdit 1 form_edit))
      demo_state))) = users (database demo_state)"
    by blast
  from h1 h2 h3 h4 k w e show ?thesis by - (intro conjI; assumption)
qed

text \<open>
  Claim C8 as stated fails for a request that carries no \<^verbatim>\<open>quoteText\<close>: the edit
  succeeds, the name and the location of the quote are replaced and its text stays, which
  is an update of a part of the fields.
\<close>

theorem edit_keeps_absent_text:
  "f_quoteText form_no_text = Undefined \<and>
   fst (app (demo_request (Some 7) (PostEdit 2 form_no_text)) demo_state) = Redirect ''/home'' \<and>
   quotes (database (snd (app (demo_request (Some 7) (PostEdit 2 form_no_text)) demo_state))) =
     [quote_hi,
      \<lparr>quote_id = 2, quoteText = ''Yo'', personName = ''Ann'', location = None, date = None,
       UserId = Some 1, createdAt = 20, updatedAt = 30\<rparr>,
      quote_no]"
  by (simp add: demo_defs model_defs)

end
